theory Spec2Isabelle
  imports Main "HOL-Library.AList"
begin

section \<open>Identifiers, time and persisted documents\<close>

text \<open>
  Identifiers are opaque in the source (ObjectId strings, Socket.IO ids); only equality is
  ever used on them, so they are natural numbers here. A \<open>Date\<close> is its number of
  milliseconds since the epoch. The three persisted collections used by the handlers
  (\<open>Call\<close>, \<open>Message\<close>, \<open>Conversation\<close>) are lists; the \<open>_id\<close> of a document is
  its position, so \<open>create\<close> appends and every new \<open>_id\<close> is fresh. No handler modelled
  here removes a document.
\<close>

type_synonym userId = nat
type_synonym socketId = nat
type_synonym callId = nat
type_synonym convId = nat
type_synonym msgId = nat
type_synonym time = int
type_synonym signal = string

subsection \<open>models/Call.js\<close>

datatype participant_status = Pending | Accepted | PRejected | PMissed | PBusy

datatype call_status = Ringing | Ongoing | Ended | Missed | Rejected

datatype call_type = Audio | Video

record participant =
  p_user :: userId
  p_joinedAt :: "time option"
  p_leftAt :: "time option"
  p_status :: participant_status

record call =
  c_conversation :: "convId option"
  c_caller :: userId
  c_participants :: "participant list"
  c_type :: call_type
  c_isGroupCall :: bool
  c_status :: call_status
  c_startedAt :: "time option"
  c_endedAt :: "time option"
  c_duration :: int
  c_roomId :: string

text \<open>
  \<open>callSchema.pre('save')\<close>: when both dates are set,
  \<open>duration = Math.floor((endedAt - startedAt) / 1000)\<close>. Integer division on \<open>int\<close>
  rounds towards minus infinity, as \<open>Math.floor\<close> of the quotient does.
\<close>

definition pre_save :: "call \<Rightarrow> call" where
  "pre_save c =
     (case c_startedAt c of
        None \<Rightarrow> c
      | Some st \<Rightarrow>
          (case c_endedAt c of
             None \<Rightarrow> c
           | Some en \<Rightarrow> c\<lparr>c_duration := (en - st) div 1000\<rparr>))"

subsection \<open>models/Message.js and models/Conversation.js\<close>

datatype msg_status = Sent | Delivered | Read

record message =
  m_conversation :: convId
  m_sender :: userId
  m_type :: string
  m_content :: string
  m_replyTo :: "msgId option"
  m_status :: msg_status
  m_readBy :: "(userId \<times> time) list"
  m_deliveredTo :: "(userId \<times> time) list"

datatype conv_type = Private | Group

record conversation =
  cv_participants :: "userId list"
  cv_type :: conv_type
  cv_lastMessage :: "msgId option"
  cv_unreadCount :: "(userId \<times> nat) list"

text \<open>The fields of the \<open>User\<close> document that the handlers read or write.\<close>

record user_doc =
  u_isOnline :: bool
  u_socketId :: "socketId option"
  u_lastSeen :: "time option"

section \<open>Server state and outputs\<close>

text \<open>
  \<open>activeCalls\<close> is a JavaScript \<open>Map\<close> that the handlers iterate, so it is an
  association list in insertion order; its values hold a \<open>Set\<close> of user ids, a list
  without duplicates in insertion order. Its key is the \<open>callId\<close> of the client's
  payload, which may be missing: \<open>None\<close> is the missing (falsy) \<open>callId\<close>.
\<close>

record active_call =
  ac_participants :: "userId list"
  ac_type :: string

text \<open>
  The \<open>send-message\<close> handler is an \<open>async\<close> function: at each \<open>await\<close> it is
  suspended and other handlers run before it resumes with its local variables
  unchanged. A suspended handler is its payload (\<open>send_request\<close>) and the \<open>await\<close> it
  waits at, with the local variables that are live there (\<open>send_pc\<close>): the in-memory
  \<open>conversation\<close> document, the \<open>_id\<close> of the created message, and the entries pushed
  on \<open>message.deliveredTo\<close>.
\<close>

record send_request =
  rq_userId :: userId
  rq_sid :: socketId
  rq_conversationId :: convId
  rq_content :: string
  rq_type :: "string option"
  rq_replyTo :: "msgId option"

datatype send_pc =
    AtFindById
  | AtCreate conversation
  | AtConversationSave conversation msgId
  | AtPopulate conversation msgId
  | AtMessageSave msgId "(userId \<times> time) list"
  | Finished

record server =
  onlineUsers :: "userId \<rightharpoonup> socketId"
  userSockets :: "socketId \<rightharpoonup> userId"
  activeCalls :: "(callId option \<times> active_call) list"
  Call_db :: "call list"
  Message_db :: "message list"
  Conversation_db :: "conversation list"
  User_db :: "userId \<rightharpoonup> user_doc"
  suspended :: "(send_request \<times> send_pc) list"

datatype room = ConversationRoom convId

datatype target =
    ToSocket socketId
  | ToRoom room
  | ToRoomExcept room socketId
  | BroadcastExcept socketId

datatype payload =
    UserOnline userId
  | UserOffline userId time
  | NewMessage msgId
  | MessageStatusUpdate msgId msg_status
  | ErrorEvent string
  | MessagesReadEvent convId userId
  | IncomingCallSignal signal userId string "callId option"
  | UserBusyOf userId "callId option"
  | UserBusyFrom userId "callId option"
  | UserUnavailable userId
  | CallAcceptedSignal signal userId "callId option"
  | CallRejectedFrom userId "callId option"
  | CallEndedFrom userId "callId option" "string option"
  | IncomingCall callId userId
  | CallAcceptedBy callId userId
  | CallRejectedBy callId userId
  | CallEndedBy callId userId int

datatype outmsg = Emit target payload | Response nat

text \<open>
  The server starts with empty maps and no calls or messages. Users and conversations are
  created by handlers outside this development (registration, conversation CRUD), so
  the initial state takes them as given.
\<close>

definition init :: "(userId \<rightharpoonup> user_doc) \<Rightarrow> conversation list \<Rightarrow> server" where
  "init users conversations =
     \<lparr>onlineUsers = Map.empty, userSockets = Map.empty, activeCalls = [],
      Call_db = [], Message_db = [], Conversation_db = conversations, User_db = users,
      suspended = []\<rparr>"

subsection \<open>Persistence helpers\<close>

definition findById :: "'a list \<Rightarrow> nat \<Rightarrow> 'a option" where
  "findById db i = (if i < length db then Some (db ! i) else None)"

text \<open>
  \<open>Call.findByIdAndUpdate(callId, update)\<close>: a query update. It changes the stored
  document when one has that id and does nothing otherwise (a missing \<open>callId\<close> names no
  document; a thrown error is caught and logged by every caller); it does not run the
  \<open>save\<close> middleware, so \<open>pre_save\<close> is not applied.
\<close>

definition Call_findByIdAndUpdate :: "callId option \<Rightarrow> (call \<Rightarrow> call) \<Rightarrow> server \<Rightarrow> server" where
  "Call_findByIdAndUpdate cid upd s =
     (case cid of
        None \<Rightarrow> s
      | Some i \<Rightarrow>
          (case findById (Call_db s) i of
             None \<Rightarrow> s
           | Some c \<Rightarrow> s\<lparr>Call_db := (Call_db s)[i := upd c]\<rparr>))"

definition User_findByIdAndUpdate :: "userId \<Rightarrow> (user_doc \<Rightarrow> user_doc) \<Rightarrow> server \<Rightarrow> server" where
  "User_findByIdAndUpdate uid upd s =
     (case User_db s uid of
        None \<Rightarrow> s
      | Some u \<Rightarrow> s\<lparr>User_db := (User_db s)(uid \<mapsto> upd u)\<rparr>)"

text \<open>\<open>call.save()\<close> of a document loaded by id: the \<open>save\<close> middleware runs first.\<close>

definition Call_save :: "callId \<Rightarrow> call \<Rightarrow> server \<Rightarrow> server" where
  "Call_save i c s = s\<lparr>Call_db := (Call_db s)[i := pre_save c]\<rparr>"

section \<open>socket/socketHandler.js: presence\<close>

text \<open>
  \<open>io.on('connection')\<close>: both maps are set, the user document is marked online, and
  every other socket is told. Joining rooms is Socket.IO state that no claim reads; a
  publication to a room is an output addressed to that room.
\<close>

definition connection :: "server \<Rightarrow> userId \<Rightarrow> socketId \<Rightarrow> server \<times> outmsg list" where
  "connection s userId sid =
     (let s1 = s\<lparr>onlineUsers := (onlineUsers s)(userId \<mapsto> sid),
                 userSockets := (userSockets s)(sid \<mapsto> userId)\<rparr>;
          s2 = User_findByIdAndUpdate userId
                 (\<lambda>u. u\<lparr>u_isOnline := True, u_socketId := Some sid\<rparr>) s1
      in (s2, [Emit (BroadcastExcept sid) (UserOnline userId)]))"

text \<open>
  The loop of \<open>socket.on('disconnect')\<close> over \<open>activeCalls.entries()\<close>: for every
  entry that holds the user, the other participants that are online are told, the entry
  is deleted and the call document is updated by query.
\<close>

definition notify_participants :: "server \<Rightarrow> userId \<Rightarrow> callId option \<Rightarrow> userId list \<Rightarrow> outmsg list" where
  "notify_participants s userId cid ps =
     concat (map (\<lambda>participantId.
        if participantId \<noteq> userId
        then (case onlineUsers s participantId of
                None \<Rightarrow> []
              | Some psid \<Rightarrow>
                  [Emit (ToSocket psid) (CallEndedFrom userId cid (Some ''disconnect''))])
        else []) ps)"

fun cleanup_calls ::
  "userId \<Rightarrow> time \<Rightarrow> (callId option \<times> active_call) list \<Rightarrow> server \<Rightarrow> server \<times> outmsg list" where
  "cleanup_calls userId now [] s = (s, [])"
| "cleanup_calls userId now ((cid, callData) # rest) s =
     (if userId \<in> set (ac_participants callData)
      then
        (let out = notify_participants s userId cid (ac_participants callData);
             s1 = s\<lparr>activeCalls := AList.delete cid (activeCalls s)\<rparr>;
             s2 = Call_findByIdAndUpdate cid
                    (\<lambda>c. c\<lparr>c_status := Ended, c_endedAt := Some now\<rparr>) s1;
             (s3, out') = cleanup_calls userId now rest s2
         in (s3, out @ out'))
      else cleanup_calls userId now rest s)"

definition disconnect :: "server \<Rightarrow> userId \<Rightarrow> socketId \<Rightarrow> time \<Rightarrow> server \<times> outmsg list" where
  "disconnect s userId sid now =
     (let s1 = s\<lparr>onlineUsers := (onlineUsers s)(userId := None),
                 userSockets := (userSockets s)(sid := None)\<rparr>;
          (s2, out) = cleanup_calls userId now (activeCalls s1) s1;
          s3 = User_findByIdAndUpdate userId
                 (\<lambda>u. u\<lparr>u_isOnline := False, u_lastSeen := Some now, u_socketId := None\<rparr>) s2
      in (s3, out @ [Emit (BroadcastExcept sid) (UserOffline userId now)]))"

definition getUserSocketId :: "server \<Rightarrow> userId \<Rightarrow> socketId option" where
  "getUserSocketId s userId = onlineUsers s userId"

section \<open>socket/socketHandler.js: call signalling\<close>

definition Set_add :: "'a \<Rightarrow> 'a list \<Rightarrow> 'a list" where
  "Set_add x xs = (if x \<in> set xs then xs else xs @ [x])"

text \<open>The busy check of \<open>call-user\<close>: some entry of \<open>activeCalls\<close> holds the user.\<close>

definition in_active_call :: "server \<Rightarrow> userId \<Rightarrow> bool" where
  "in_active_call s u = list_ex (\<lambda>(cid, callData). u \<in> set (ac_participants callData)) (activeCalls s)"

definition call_user ::
  "server \<Rightarrow> userId \<Rightarrow> socketId \<Rightarrow> userId \<Rightarrow> signal \<Rightarrow> string \<Rightarrow> callId option \<Rightarrow> server \<times> outmsg list" where
  "call_user s userId sid userToCall signalData callType cid =
     (case onlineUsers s userToCall of
        Some targetSocketId \<Rightarrow>
          if in_active_call s userToCall
          then (s, [Emit (ToSocket sid) (UserBusyOf userToCall cid)])
          else
            (let ac1 = (if map_of (activeCalls s) cid = None
                        then activeCalls s @ [(cid, \<lparr>ac_participants = [userId], ac_type = callType\<rparr>)]
                        else activeCalls s);
                 ac2 = AList.map_entry cid
                         (\<lambda>callData. callData\<lparr>ac_participants := Set_add userToCall (ac_participants callData)\<rparr>)
                         ac1
             in (s\<lparr>activeCalls := ac2\<rparr>,
                 [Emit (ToSocket targetSocketId) (IncomingCallSignal signalData userId callType cid)]))
      | None \<Rightarrow>
          (Call_findByIdAndUpdate cid (\<lambda>c. c\<lparr>c_status := Missed\<rparr>) s,
           [Emit (ToSocket sid) (UserUnavailable userToCall)]))"

definition answer_call ::
  "server \<Rightarrow> userId \<Rightarrow> signal \<Rightarrow> userId \<Rightarrow> callId option \<Rightarrow> time \<Rightarrow> server \<times> outmsg list" where
  "answer_call s userId sig to cid now =
     (case onlineUsers s to of
        Some targetSocketId \<Rightarrow>
          (Call_findByIdAndUpdate cid (\<lambda>c. c\<lparr>c_status := Ongoing, c_startedAt := Some now\<rparr>) s,
           [Emit (ToSocket targetSocketId) (CallAcceptedSignal sig userId cid)])
      | None \<Rightarrow> (s, []))"

definition relay :: "server \<Rightarrow> userId \<Rightarrow> payload \<Rightarrow> outmsg list" where
  "relay s to p = (case onlineUsers s to of Some targetSocketId \<Rightarrow> [Emit (ToSocket targetSocketId) p] | None \<Rightarrow> [])"

definition reject_call :: "server \<Rightarrow> userId \<Rightarrow> userId \<Rightarrow> callId option \<Rightarrow> server \<times> outmsg list" where
  "reject_call s userId to cid =
     (let s1 = s\<lparr>activeCalls := AList.delete cid (activeCalls s)\<rparr>
      in (Call_findByIdAndUpdate cid (\<lambda>c. c\<lparr>c_status := Rejected\<rparr>) s1,
          relay s to (CallRejectedFrom userId cid)))"

definition end_call :: "server \<Rightarrow> userId \<Rightarrow> userId \<Rightarrow> callId option \<Rightarrow> server \<times> outmsg list" where
  "end_call s userId to cid =
     (s\<lparr>activeCalls := AList.delete cid (activeCalls s)\<rparr>,
      relay s to (CallEndedFrom userId cid None))"

definition user_busy :: "server \<Rightarrow> userId \<Rightarrow> userId \<Rightarrow> callId option \<Rightarrow> server \<times> outmsg list" where
  "user_busy s userId to cid =
     (s\<lparr>activeCalls := AList.delete cid (activeCalls s)\<rparr>,
      relay s to (UserBusyFrom userId cid))"

section \<open>controllers/callController.js\<close>

text \<open>
  The REST handlers return the HTTP status as \<open>Response\<close>. Populated references are
  read from \<open>User_db\<close>; a user without a stored socket id (an empty \<open>socketId\<close>) is
  not notified. A reference to a user without a document is populated as \<open>null\<close>, and
  reading \<open>p.user._id\<close> or \<open>.socketId\<close> through it throws a \<open>TypeError\<close>, which
  \<open>next(error)\<close> answers (status 500 here); what was saved or emitted before stays.
\<close>

fun findIndex :: "('a \<Rightarrow> bool) \<Rightarrow> 'a list \<Rightarrow> nat option" where
  "findIndex P [] = None"
| "findIndex P (x # xs) = (if P x then Some 0 else map_option Suc (findIndex P xs))"

definition parse_call_type :: "string \<Rightarrow> call_type option" where
  "parse_call_type t =
     (if t = ''audio'' then Some Audio else if t = ''video'' then Some Video else None)"

definition emit_to_doc :: "user_doc \<Rightarrow> payload \<Rightarrow> outmsg list" where
  "emit_to_doc d p = (case u_socketId d of None \<Rightarrow> [] | Some sid \<Rightarrow> [Emit (ToSocket sid) p])"

text \<open>
  \<open>participants.forEach(p => { if (p.user.socketId) io.to(...).emit(...) })\<close>: the
  emissions up to the first participant without a user document, and whether the loop
  threw there.
\<close>

fun emit_populated :: "(userId \<rightharpoonup> user_doc) \<Rightarrow> userId list \<Rightarrow> payload \<Rightarrow> outmsg list \<times> bool" where
  "emit_populated users [] p = ([], False)"
| "emit_populated users (u # us) p =
     (case users u of
        None \<Rightarrow> ([], True)
      | Some d \<Rightarrow> (emit_to_doc d p @ fst (emit_populated users us p), snd (emit_populated users us p)))"

text \<open>
  \<open>participants.findIndex(p => p.user._id.toString() === req.user._id.toString())\<close>
  over the populated participants: it throws at a participant without a user document
  that it reaches before a match.
\<close>

datatype participant_lookup = ThrowsTypeError | NotAParticipant | ParticipantAt nat

fun find_participant :: "(userId \<rightharpoonup> user_doc) \<Rightarrow> userId \<Rightarrow> participant list \<Rightarrow> participant_lookup" where
  "find_participant users reqUser [] = NotAParticipant"
| "find_participant users reqUser (p # ps) =
     (if users (p_user p) = None then ThrowsTypeError
      else if p_user p = reqUser then ParticipantAt 0
      else (case find_participant users reqUser ps of
              ParticipantAt n \<Rightarrow> ParticipantAt (Suc n)
            | r \<Rightarrow> r))"

definition is_private_of :: "userId \<Rightarrow> userId \<Rightarrow> conversation \<Rightarrow> bool" where
  "is_private_of user1Id user2Id cv \<longleftrightarrow>
     cv_type cv = Private \<and> user1Id \<in> set (cv_participants cv) \<and>
     user2Id \<in> set (cv_participants cv) \<and> length (cv_participants cv) = 2"

definition findOrCreatePrivate :: "server \<Rightarrow> userId \<Rightarrow> userId \<Rightarrow> convId \<times> server" where
  "findOrCreatePrivate s user1Id user2Id =
     (case findIndex (is_private_of user1Id user2Id) (Conversation_db s) of
        Some i \<Rightarrow> (i, s)
      | None \<Rightarrow>
          (length (Conversation_db s),
           s\<lparr>Conversation_db := Conversation_db s @
                [\<lparr>cv_participants = [user1Id, user2Id], cv_type = Private,
                  cv_lastMessage = None, cv_unreadCount = []\<rparr>]\<rparr>))"

definition pending_participant :: "userId \<Rightarrow> participant" where
  "pending_participant u = \<lparr>p_user = u, p_joinedAt = None, p_leftAt = None, p_status = Pending\<rparr>"

text \<open>
  \<open>Call.create\<close> with the schema defaults (\<open>status: 'ringing'\<close>, \<open>duration: 0\<close>), then the
  \<open>incoming-call\<close> emission to every participant that has a socket id, then 201 (500
  when the emission loop threw).
\<close>

definition create_call ::
  "server \<Rightarrow> convId \<Rightarrow> userId \<Rightarrow> participant list \<Rightarrow> call_type \<Rightarrow> bool \<Rightarrow> string \<Rightarrow> server \<times> outmsg list" where
  "create_call s cvid reqUser participants ty isGroupCall roomId =
     (let cid = length (Call_db s);
          c = pre_save \<lparr>c_conversation = Some cvid, c_caller = reqUser, c_participants = participants,
                c_type = ty, c_isGroupCall = isGroupCall, c_status = Ringing,
                c_startedAt = None, c_endedAt = None, c_duration = 0, c_roomId = roomId\<rparr>;
          s1 = s\<lparr>Call_db := Call_db s @ [c]\<rparr>;
          emitted = emit_populated (User_db s1) (map p_user participants) (IncomingCall cid reqUser)
      in (s1, fst emitted @ [Response (if snd emitted then 500 else 201)]))"

definition initiateCall ::
  "server \<Rightarrow> userId \<Rightarrow> userId \<Rightarrow> string \<Rightarrow> bool \<Rightarrow> convId option \<Rightarrow> string \<Rightarrow> server \<times> outmsg list" where
  "initiateCall s reqUser receiverId type isGroupCall conversationId roomId =
     (case parse_call_type type of
        None \<Rightarrow> (s, [Response 400])
      | Some ty \<Rightarrow>
          (case (if isGroupCall then conversationId else None) of
             Some cvid \<Rightarrow>
               (case findById (Conversation_db s) cvid of
                  None \<Rightarrow> (s, [Response 404])
                | Some conversation \<Rightarrow>
                    create_call s cvid reqUser
                      (map pending_participant (filter (\<lambda>p. p \<noteq> reqUser) (cv_participants conversation)))
                      ty isGroupCall roomId)
           | None \<Rightarrow>
               (case User_db s receiverId of
                  None \<Rightarrow> (s, [Response 404])
                | Some receiver \<Rightarrow>
                    (let (cvid, s1) = findOrCreatePrivate s reqUser receiverId
                     in create_call s1 cvid reqUser [pending_participant receiverId]
                          ty isGroupCall roomId))))"

definition acceptCall :: "server \<Rightarrow> userId \<Rightarrow> callId \<Rightarrow> time \<Rightarrow> server \<times> outmsg list" where
  "acceptCall s reqUser cid now =
     (case findById (Call_db s) cid of
        None \<Rightarrow> (s, [Response 404])
      | Some c \<Rightarrow>
          (case find_participant (User_db s) reqUser (c_participants c) of
             ThrowsTypeError \<Rightarrow> (s, [Response 500])
           | NotAParticipant \<Rightarrow> (s, [Response 403])
           | ParticipantAt participantIndex \<Rightarrow>
               (let c1 = c\<lparr>c_participants := (c_participants c)
                           [participantIndex := (c_participants c ! participantIndex)
                              \<lparr>p_status := Accepted, p_joinedAt := Some now\<rparr>]\<rparr>;
                    c2 = (if c_status c1 = Ringing
                          then c1\<lparr>c_status := Ongoing, c_startedAt := Some now\<rparr>
                          else c1);
                    s1 = Call_save cid c2 s
                in (case User_db s (c_caller c2) of
                      None \<Rightarrow> (s1, [Response 500])
                    | Some caller \<Rightarrow>
                        (s1, emit_to_doc caller (CallAcceptedBy cid reqUser) @ [Response 200])))))"

definition rejectCall :: "server \<Rightarrow> userId \<Rightarrow> callId \<Rightarrow> time \<Rightarrow> server \<times> outmsg list" where
  "rejectCall s reqUser cid now =
     (case findById (Call_db s) cid of
        None \<Rightarrow> (s, [Response 404])
      | Some c \<Rightarrow>
          (case find_participant (User_db s) reqUser (c_participants c) of
             ThrowsTypeError \<Rightarrow> (s, [Response 500])
           | NotAParticipant \<Rightarrow> (s, [Response 403])
           | ParticipantAt participantIndex \<Rightarrow>
               (let c1 = c\<lparr>c_participants := (c_participants c)
                           [participantIndex := (c_participants c ! participantIndex)
                              \<lparr>p_status := PRejected\<rparr>]\<rparr>;
                    allRejected = list_all (\<lambda>p. p_status p = PRejected) (c_participants c1);
                    c2 = (if allRejected
                          then c1\<lparr>c_status := Rejected, c_endedAt := Some now\<rparr>
                          else c1);
                    s1 = Call_save cid c2 s
                in (case User_db s (c_caller c2) of
                      None \<Rightarrow> (s1, [Response 500])
                    | Some caller \<Rightarrow>
                        (s1, emit_to_doc caller (CallRejectedBy cid reqUser) @ [Response 200])))))"

definition endCall :: "server \<Rightarrow> userId \<Rightarrow> callId \<Rightarrow> time \<Rightarrow> server \<times> outmsg list" where
  "endCall s reqUser cid now =
     (case findById (Call_db s) cid of
        None \<Rightarrow> (s, [Response 404])
      | Some c \<Rightarrow>
          (let c1 = c\<lparr>c_status := Ended, c_endedAt := Some now,
                      c_participants :=
                        map (\<lambda>p. if p_leftAt p = None then p\<lparr>p_leftAt := Some now\<rparr> else p)
                          (c_participants c)\<rparr>;
               s1 = Call_save cid c1 s;
               saved = pre_save c1;
               ended = CallEndedBy cid reqUser (c_duration saved)
           in (case User_db s (c_caller saved) of
                 None \<Rightarrow> (s1, [Response 500])
               | Some caller \<Rightarrow>
                   (let emitted = emit_populated (User_db s) (map p_user (c_participants saved)) ended
                    in (s1, emit_to_doc caller ended @ fst emitted
                            @ [Response (if snd emitted then 500 else 200)])))))"

section \<open>Message delivery: socket handlers and controllers/messageController.js\<close>

text \<open>
  Every awaited persistence call can throw. \<open>fault\<close> names the call that throws in
  one run of a handler, or in one resumption of \<open>send-message\<close> (\<open>NoFault\<close>: none
  does); the handler's \<open>catch\<close> block then runs with whatever was already persisted.
\<close>

datatype fault =
    NoFault
  | FindByIdFails
  | CreateFails
  | ConversationSaveFails
  | PopulateFails
  | MessageSaveFails
  | UpdateManyFails

definition message_types :: "string list" where
  "message_types = [''text'', ''image'', ''video'', ''audio'', ''document'', ''voice'',
                    ''location'', ''contact'', ''sticker'']"

definition default_type :: "string option \<Rightarrow> string" where
  "default_type t = (case t of None \<Rightarrow> ''text'' | Some x \<Rightarrow> x)"

definition new_message :: "convId \<Rightarrow> userId \<Rightarrow> string \<Rightarrow> string \<Rightarrow> msgId option \<Rightarrow> message" where
  "new_message conversationId sender content type replyTo =
     \<lparr>m_conversation = conversationId, m_sender = sender, m_type = type, m_content = content,
      m_replyTo = replyTo, m_status = Sent, m_readBy = [], m_deliveredTo = []\<rparr>"

text \<open>
  The \<open>forEach\<close> over the participants that increments the unread counter of everyone
  but the sender (\<open>unreadCount.get(p) || 0\<close>, then \<open>set\<close>).
\<close>

definition unread_of :: "(userId \<times> nat) list \<Rightarrow> userId \<Rightarrow> nat" where
  "unread_of uc p = (case map_of uc p of None \<Rightarrow> 0 | Some n \<Rightarrow> n)"

definition increment_unread :: "userId \<Rightarrow> userId list \<Rightarrow> (userId \<times> nat) list \<Rightarrow> (userId \<times> nat) list" where
  "increment_unread userId ps uc =
     fold (\<lambda>participant acc.
             if participant \<noteq> userId
             then AList.update participant (unread_of acc participant + 1) acc
             else acc) ps uc"

definition update_conversation :: "userId \<Rightarrow> msgId \<Rightarrow> conversation \<Rightarrow> conversation" where
  "update_conversation userId mid cv =
     cv\<lparr>cv_lastMessage := Some mid,
        cv_unreadCount := increment_unread userId (cv_participants cv) (cv_unreadCount cv)\<rparr>"

definition error_event :: "socketId \<Rightarrow> outmsg list" where
  "error_event sid = [Emit (ToSocket sid) (ErrorEvent ''Failed to send message'')]"

definition online_recipients :: "server \<Rightarrow> userId \<Rightarrow> userId list \<Rightarrow> time \<Rightarrow> (userId \<times> time) list" where
  "online_recipients s userId ps now =
     map (\<lambda>participantId. (participantId, now))
       (filter (\<lambda>participantId. participantId \<noteq> userId \<and> onlineUsers s participantId \<noteq> None) ps)"

text \<open>
  \<open>conversation.save()\<close> and \<open>message.save()\<close> of a document that was loaded or created
  earlier write the paths modified in memory onto the stored document, whatever it holds
  by then: \<open>lastMessage\<close> and the \<open>unreadCount\<close> keys that were \<open>set\<close> for the
  conversation; \<open>status\<close> and the pushed \<open>deliveredTo\<close> entries for the message.
\<close>

definition Conversation_save :: "convId \<Rightarrow> userId \<Rightarrow> conversation \<Rightarrow> server \<Rightarrow> server" where
  "Conversation_save conversationId userId conversation s =
     (case findById (Conversation_db s) conversationId of
        None \<Rightarrow> s
      | Some stored \<Rightarrow>
          s\<lparr>Conversation_db := (Conversation_db s)
               [conversationId := stored
                  \<lparr>cv_lastMessage := cv_lastMessage conversation,
                   cv_unreadCount :=
                     fold (\<lambda>participant acc.
                             if participant \<noteq> userId
                             then AList.update participant
                                    (unread_of (cv_unreadCount conversation) participant) acc
                             else acc)
                       (cv_participants conversation) (cv_unreadCount stored)\<rparr>]\<rparr>)"

definition Message_save_delivered :: "msgId \<Rightarrow> (userId \<times> time) list \<Rightarrow> server \<Rightarrow> server" where
  "Message_save_delivered mid deliveredTo s =
     (case findById (Message_db s) mid of
        None \<Rightarrow> s
      | Some stored \<Rightarrow>
          s\<lparr>Message_db := (Message_db s)
               [mid := stored\<lparr>m_status := Delivered,
                             m_deliveredTo := m_deliveredTo stored @ deliveredTo\<rparr>]\<rparr>)"

text \<open>
  One resumption of \<open>socket.on('send-message')\<close>: the awaited call completes (or throws,
  when \<open>f\<close> names it) and the handler runs on to its next \<open>await\<close>. The two \<open>populate\<close>
  calls only fill the in-memory message and are one resumption. \<open>now\<close> is the
  \<open>new Date()\<close> of the \<open>deliveredTo\<close> entries.
\<close>

fun send_message_resume ::
  "server \<Rightarrow> send_request \<Rightarrow> send_pc \<Rightarrow> time \<Rightarrow> fault \<Rightarrow> server \<times> outmsg list \<times> send_pc" where
  "send_message_resume s rq AtFindById now f =
     (if f = FindByIdFails then (s, error_event (rq_sid rq), Finished)
      else
        (case findById (Conversation_db s) (rq_conversationId rq) of
           None \<Rightarrow> (s, [], Finished)
         | Some conversation \<Rightarrow> (s, [], AtCreate conversation)))"
| "send_message_resume s rq (AtCreate conversation) now f =
     (if f = CreateFails \<or> default_type (rq_type rq) \<notin> set message_types
      then (s, error_event (rq_sid rq), Finished)
      else
        (let mid = length (Message_db s);
             msg = new_message (rq_conversationId rq) (rq_userId rq) (rq_content rq)
                     (default_type (rq_type rq)) (rq_replyTo rq);
             s1 = s\<lparr>Message_db := Message_db s @ [msg]\<rparr>;
             conversation1 = update_conversation (rq_userId rq) mid conversation
         in (s1, [], AtConversationSave conversation1 mid)))"
| "send_message_resume s rq (AtConversationSave conversation mid) now f =
     (if f = ConversationSaveFails then (s, error_event (rq_sid rq), Finished)
      else (Conversation_save (rq_conversationId rq) (rq_userId rq) conversation s, [],
            AtPopulate conversation mid))"
| "send_message_resume s rq (AtPopulate conversation mid) now f =
     (if f = PopulateFails then (s, error_event (rq_sid rq), Finished)
      else
        (let out1 = [Emit (ToRoom (ConversationRoom (rq_conversationId rq))) (NewMessage mid)];
             deliveredTo = online_recipients s (rq_userId rq) (cv_participants conversation) now
         in if deliveredTo \<noteq> [] then (s, out1, AtMessageSave mid deliveredTo)
            else (s, out1, Finished)))"
| "send_message_resume s rq (AtMessageSave mid deliveredTo) now f =
     (if f = MessageSaveFails then (s, error_event (rq_sid rq), Finished)
      else (Message_save_delivered mid deliveredTo s,
            [Emit (ToRoom (ConversationRoom (rq_conversationId rq))) (MessageStatusUpdate mid Delivered)],
            Finished))"
| "send_message_resume s rq Finished now f = (s, [], Finished)"

definition then_resume ::
  "send_request \<Rightarrow> time \<Rightarrow> fault \<Rightarrow> server \<times> outmsg list \<times> send_pc \<Rightarrow> server \<times> outmsg list \<times> send_pc" where
  "then_resume rq now f r =
     (let r' = send_message_resume (fst r) rq (snd (snd r)) now f
      in (fst r', fst (snd r) @ fst (snd r'), snd (snd r')))"

text \<open>
  The handler run from its start to its end with no other handler in between: the five
  resumptions in a row. \<open>f\<close> names the awaited call that throws, if any.
\<close>

definition send_message_run ::
  "server \<Rightarrow> send_request \<Rightarrow> time \<Rightarrow> fault \<Rightarrow> server \<times> outmsg list \<times> send_pc" where
  "send_message_run s rq now f =
     then_resume rq now f (then_resume rq now f (then_resume rq now f
       (then_resume rq now f (then_resume rq now f (s, [], AtFindById)))))"

definition send_message ::
  "server \<Rightarrow> userId \<Rightarrow> socketId \<Rightarrow> convId \<Rightarrow> string \<Rightarrow> string option \<Rightarrow> msgId option \<Rightarrow> time \<Rightarrow> fault
     \<Rightarrow> server \<times> outmsg list" where
  "send_message s userId sid conversationId content type replyTo now f =
     (let r = send_message_run s
                \<lparr>rq_userId = userId, rq_sid = sid, rq_conversationId = conversationId,
                 rq_content = content, rq_type = type, rq_replyTo = replyTo\<rparr> now f
      in (fst r, fst (snd r)))"

text \<open>
  The same handler when other handlers run at its awaits: its arrival registers it as
  suspended at the first \<open>await\<close>, and each later event \<open>k\<close> resumes the \<open>k\<close>-th
  registered handler once.
\<close>

definition send_message_arrives ::
  "server \<Rightarrow> userId \<Rightarrow> socketId \<Rightarrow> convId \<Rightarrow> string \<Rightarrow> string option \<Rightarrow> msgId option \<Rightarrow> server \<times> outmsg list" where
  "send_message_arrives s userId sid conversationId content type replyTo =
     (s\<lparr>suspended := suspended s @
           [(\<lparr>rq_userId = userId, rq_sid = sid, rq_conversationId = conversationId,
              rq_content = content, rq_type = type, rq_replyTo = replyTo\<rparr>, AtFindById)]\<rparr>, [])"

definition send_message_resumes :: "server \<Rightarrow> nat \<Rightarrow> time \<Rightarrow> fault \<Rightarrow> server \<times> outmsg list" where
  "send_message_resumes s k now f =
     (if k < length (suspended s)
      then
        (let rq = fst (suspended s ! k);
             r = send_message_resume s rq (snd (suspended s ! k)) now f
         in ((fst r)\<lparr>suspended := (suspended (fst r))[k := (rq, snd (snd r))]\<rparr>, fst (snd r)))
      else (s, []))"

text \<open>
  \<open>Message.updateMany\<close> with the filter
  \<open>{conversation, sender: {$ne: userId}, status: {$ne: 'read'}}\<close> and the update
  \<open>{$set: {status: 'read'}, $push: {readBy: {user, readAt}}}\<close>.
\<close>

definition mark_read :: "convId \<Rightarrow> userId \<Rightarrow> time \<Rightarrow> message \<Rightarrow> message" where
  "mark_read conversationId userId now m =
     (if m_conversation m = conversationId \<and> m_sender m \<noteq> userId \<and> m_status m \<noteq> Read
      then m\<lparr>m_status := Read, m_readBy := m_readBy m @ [(userId, now)]\<rparr>
      else m)"

definition Message_updateMany_read :: "convId \<Rightarrow> userId \<Rightarrow> time \<Rightarrow> server \<Rightarrow> server" where
  "Message_updateMany_read conversationId userId now s =
     s\<lparr>Message_db := map (mark_read conversationId userId now) (Message_db s)\<rparr>"

definition reset_unread :: "convId \<Rightarrow> userId \<Rightarrow> conversation \<Rightarrow> server \<Rightarrow> server" where
  "reset_unread conversationId userId conversation s =
     s\<lparr>Conversation_db := (Conversation_db s)
          [conversationId := conversation\<lparr>cv_unreadCount := AList.update userId 0 (cv_unreadCount conversation)\<rparr>]\<rparr>"

definition messages_read ::
  "server \<Rightarrow> userId \<Rightarrow> socketId \<Rightarrow> convId \<Rightarrow> time \<Rightarrow> fault \<Rightarrow> server \<times> outmsg list" where
  "messages_read s userId sid conversationId now f =
     (if f = UpdateManyFails then (s, [])
      else
        (let s1 = Message_updateMany_read conversationId userId now s;
             out = [Emit (ToRoomExcept (ConversationRoom conversationId) sid)
                      (MessagesReadEvent conversationId userId)]
         in if f = FindByIdFails then (s1, [])
            else
              (case findById (Conversation_db s1) conversationId of
                 None \<Rightarrow> (s1, out)
               | Some conversation \<Rightarrow>
                   if f = ConversationSaveFails then (s1, [])
                   else (reset_unread conversationId userId conversation s1, out))))"

text \<open>
  The REST \<open>sendMessage\<close>: 404 for an unknown conversation, 403 when the requester is
  not a participant; a thrown error goes to \<open>next(error)\<close>, shown here as status 500.
\<close>

definition sendMessage ::
  "server \<Rightarrow> userId \<Rightarrow> convId \<Rightarrow> string \<Rightarrow> string option \<Rightarrow> msgId option \<Rightarrow> fault \<Rightarrow> server \<times> outmsg list" where
  "sendMessage s reqUser conversationId content type replyTo f =
     (if f = FindByIdFails then (s, [Response 500])
      else
        (case findById (Conversation_db s) conversationId of
           None \<Rightarrow> (s, [Response 404])
         | Some conversation \<Rightarrow>
             if reqUser \<notin> set (cv_participants conversation) then (s, [Response 403])
             else if f = CreateFails \<or> default_type type \<notin> set message_types then (s, [Response 500])
             else
               (let mid = length (Message_db s);
                    msg = new_message conversationId reqUser content (default_type type) replyTo;
                    s1 = s\<lparr>Message_db := Message_db s @ [msg]\<rparr>;
                    conversation1 = update_conversation reqUser mid conversation
                in if f = ConversationSaveFails then (s1, [Response 500])
                   else
                     (let s2 = s1\<lparr>Conversation_db := (Conversation_db s1)[conversationId := conversation1]\<rparr>
                      in if f = PopulateFails then (s2, [Response 500])
                         else (s2, [Emit (ToRoom (ConversationRoom conversationId)) (NewMessage mid),
                                    Response 201])))))"

text \<open>
  \<open>sendFileMessage\<close> and \<open>sendVoiceMessage\<close>: 400 without an uploaded file, 404 for an
  unknown conversation, and no participant check. The message type comes from the MIME
  type of the upload (\<open>voice\<close> for a voice message); the \<open>file\<close> sub-document is not
  part of \<open>message\<close> here.
\<close>

definition file_type :: "string \<Rightarrow> string" where
  "file_type mimetype =
     (if take 6 mimetype = ''image/'' then ''image''
      else if take 6 mimetype = ''video/'' then ''video''
      else if take 6 mimetype = ''audio/'' then ''audio''
      else ''document'')"

definition store_file_message ::
  "server \<Rightarrow> userId \<Rightarrow> convId \<Rightarrow> conversation \<Rightarrow> string \<Rightarrow> msgId option \<Rightarrow> fault \<Rightarrow> server \<times> outmsg list" where
  "store_file_message s reqUser conversationId conversation type replyTo f =
     (if f = CreateFails then (s, [Response 500])
      else
        (let mid = length (Message_db s);
             msg = new_message conversationId reqUser [] type replyTo;
             s1 = s\<lparr>Message_db := Message_db s @ [msg]\<rparr>;
             conversation1 = update_conversation reqUser mid conversation
         in if f = ConversationSaveFails then (s1, [Response 500])
            else
              (let s2 = s1\<lparr>Conversation_db := (Conversation_db s1)[conversationId := conversation1]\<rparr>
               in if f = PopulateFails then (s2, [Response 500])
                  else (s2, [Emit (ToRoom (ConversationRoom conversationId)) (NewMessage mid),
                             Response 201]))))"

definition sendFileMessage ::
  "server \<Rightarrow> userId \<Rightarrow> convId \<Rightarrow> string option \<Rightarrow> msgId option \<Rightarrow> fault \<Rightarrow> server \<times> outmsg list" where
  "sendFileMessage s reqUser conversationId file replyTo f =
     (case file of
        None \<Rightarrow> (s, [Response 400])
      | Some mimetype \<Rightarrow>
          if f = FindByIdFails then (s, [Response 500])
          else
            (case findById (Conversation_db s) conversationId of
               None \<Rightarrow> (s, [Response 404])
             | Some conversation \<Rightarrow>
                 store_file_message s reqUser conversationId conversation (file_type mimetype) replyTo f))"

definition sendVoiceMessage ::
  "server \<Rightarrow> userId \<Rightarrow> convId \<Rightarrow> string option \<Rightarrow> fault \<Rightarrow> server \<times> outmsg list" where
  "sendVoiceMessage s reqUser conversationId file f =
     (case file of
        None \<Rightarrow> (s, [Response 400])
      | Some mimetype \<Rightarrow>
          if f = FindByIdFails then (s, [Response 500])
          else
            (case findById (Conversation_db s) conversationId of
               None \<Rightarrow> (s, [Response 404])
             | Some conversation \<Rightarrow>
                 store_file_message s reqUser conversationId conversation ''voice'' None f))"

definition markAsRead ::
  "server \<Rightarrow> userId \<Rightarrow> convId \<Rightarrow> time \<Rightarrow> fault \<Rightarrow> server \<times> outmsg list" where
  "markAsRead s reqUser conversationId now f =
     (if f = UpdateManyFails then (s, [Response 500])
      else
        (let s1 = Message_updateMany_read conversationId reqUser now s;
             out = [Emit (ToRoom (ConversationRoom conversationId)) (MessagesReadEvent conversationId reqUser),
                    Response 200]
         in if f = FindByIdFails then (s1, [Response 500])
            else
              (case findById (Conversation_db s1) conversationId of
                 None \<Rightarrow> (s1, out)
               | Some conversation \<Rightarrow>
                   if f = ConversationSaveFails then (s1, [Response 500])
                   else (reset_unread conversationId reqUser conversation s1, out))))"

section \<open>Events and runs\<close>

text \<open>
  One event is one invocation of a handler, run to completion; for \<open>send-message\<close> there
  are also the events of its arrival and of each single resumption, so that a run can
  place other handlers at its awaits. A run applies a list of events in order and
  collects the outputs. The socket handlers left out (typing, ICE candidates, call
  rooms, group-call signals, screen sharing, joining and leaving a conversation room)
  only forward a payload or change room membership; the REST handlers left out that
  save a message (delete, react, star) write neither \<open>status\<close> nor \<open>readBy\<close> nor
  \<open>deliveredTo\<close>. Of the handlers kept here only \<open>send-message\<close> writes a stored
  message from a copy made before an \<open>await\<close>: the bulk read is one \<open>updateMany\<close>,
  and the REST senders only create messages.
\<close>

datatype event =
    Connection userId socketId
  | Disconnect userId socketId time
  | SendMessage userId socketId convId string "string option" "msgId option" time fault
  | SendMessageArrives userId socketId convId string "string option" "msgId option"
  | SendMessageResumes nat time fault
  | MessagesRead userId socketId convId time fault
  | CallUser userId socketId userId signal string "callId option"
  | AnswerCall userId signal userId "callId option" time
  | RejectCall userId userId "callId option"
  | EndCall userId userId "callId option"
  | UserBusy userId userId "callId option"
  | RestInitiateCall userId userId string bool "convId option" string
  | RestAcceptCall userId callId time
  | RestRejectCall userId callId time
  | RestEndCall userId callId time
  | RestSendMessage userId convId string "string option" "msgId option" fault
  | RestSendFileMessage userId convId "string option" "msgId option" fault
  | RestSendVoiceMessage userId convId "string option" fault
  | RestMarkAsRead userId convId time fault

fun step :: "server \<Rightarrow> event \<Rightarrow> server \<times> outmsg list" where
  "step s (Connection u sid) = connection s u sid"
| "step s (Disconnect u sid now) = disconnect s u sid now"
| "step s (SendMessage u sid cv content ty rep now f) = send_message s u sid cv content ty rep now f"
| "step s (SendMessageArrives u sid cv content ty rep) = send_message_arrives s u sid cv content ty rep"
| "step s (SendMessageResumes k now f) = send_message_resumes s k now f"
| "step s (MessagesRead u sid cv now f) = messages_read s u sid cv now f"
| "step s (CallUser u sid userToCall sig callType cid) = call_user s u sid userToCall sig callType cid"
| "step s (AnswerCall u sig to cid now) = answer_call s u sig to cid now"
| "step s (RejectCall u to cid) = reject_call s u to cid"
| "step s (EndCall u to cid) = end_call s u to cid"
| "step s (UserBusy u to cid) = user_busy s u to cid"
| "step s (RestInitiateCall u receiverId ty isGroupCall cv roomId) = initiateCall s u receiverId ty isGroupCall cv roomId"
| "step s (RestAcceptCall u cid now) = acceptCall s u cid now"
| "step s (RestRejectCall u cid now) = rejectCall s u cid now"
| "step s (RestEndCall u cid now) = endCall s u cid now"
| "step s (RestSendMessage u cv content ty rep f) = sendMessage s u cv content ty rep f"
| "step s (RestSendFileMessage u cv file rep f) = sendFileMessage s u cv file rep f"
| "step s (RestSendVoiceMessage u cv file f) = sendVoiceMessage s u cv file f"
| "step s (RestMarkAsRead u cv now f) = markAsRead s u cv now f"

fun run :: "server \<Rightarrow> event list \<Rightarrow> server" where
  "run s [] = s"
| "run s (e # es) = run (fst (step s e)) es"

fun outputs :: "server \<Rightarrow> event list \<Rightarrow> outmsg list" where
  "outputs s [] = []"
| "outputs s (e # es) = snd (step s e) @ outputs (fst (step s e)) es"

section \<open>Observations used by the properties\<close>

text \<open>
  What \<open>getUserSocketId\<close> returns after one more event, given what it returned before:
  a connection of the user stores its socket, a disconnect of the user (from any socket)
  removes the entry, and nothing else touches it.
\<close>

fun lookup_after :: "userId \<Rightarrow> socketId option \<Rightarrow> event \<Rightarrow> socketId option" where
  "lookup_after u cur (Connection u' sid) = (if u' = u then Some sid else cur)"
| "lookup_after u cur (Disconnect u' sid now) = (if u' = u then None else cur)"
| "lookup_after u cur _ = cur"

text \<open>The order sent, delivered, read of the message status.\<close>

fun status_rank :: "msg_status \<Rightarrow> nat" where
  "status_rank Sent = 0"
| "status_rank Delivered = 1"
| "status_rank Read = 2"

text \<open>
  The bulk read that an event performs: the conversation, the reader and the time of a
  \<open>messages-read\<close> or \<open>markAsRead\<close> whose \<open>updateMany\<close> does not throw.
\<close>

fun read_of :: "event \<Rightarrow> (convId \<times> userId \<times> time) option" where
  "read_of (MessagesRead u sid cv now f) = (if f = UpdateManyFails then None else Some (cv, u, now))"
| "read_of (RestMarkAsRead u cv now f) = (if f = UpdateManyFails then None else Some (cv, u, now))"
| "read_of _ = None"

text \<open>
  The reader that an event records on a message that is not yet \<open>read\<close>: the reader of
  a bulk read of the message's conversation by someone other than its sender.
\<close>

definition recorded_reader :: "event \<Rightarrow> message \<Rightarrow> (userId \<times> time) option" where
  "recorded_reader e m =
     (case read_of e of
        None \<Rightarrow> None
      | Some (cv, u, now) \<Rightarrow>
          if m_conversation m = cv \<and> m_sender m \<noteq> u then Some (u, now) else None)"

text \<open>
  The event resumes a suspended \<open>send-message\<close> handler at its \<open>message.save()\<close> for
  message \<open>i\<close>, and the save does not throw: the delivered write lands on message \<open>i\<close>.
\<close>

fun delivered_write_to :: "server \<Rightarrow> event \<Rightarrow> msgId \<Rightarrow> bool" where
  "delivered_write_to s (SendMessageResumes k now f) i =
     (k < length (suspended s) \<and> f \<noteq> MessageSaveFails \<and>
      (case snd (suspended s ! k) of AtMessageSave mid deliveredTo \<Rightarrow> mid = i | _ \<Rightarrow> False))"
| "delivered_write_to s _ i = False"

text \<open>The delivered write lands on a message that a bulk read has already set to \<open>read\<close>.\<close>

definition overwrites_read :: "server \<Rightarrow> event \<Rightarrow> msgId \<Rightarrow> bool" where
  "overwrites_read s e i \<longleftrightarrow> delivered_write_to s e i \<and> m_status (Message_db s ! i) = Read"

text \<open>The event is a single resumption of a suspended \<open>send-message\<close> handler.\<close>

fun resumption :: "event \<Rightarrow> bool" where
  "resumption (SendMessageResumes k now f) = True"
| "resumption _ = False"

fun never_overwrites_read :: "server \<Rightarrow> event list \<Rightarrow> msgId \<Rightarrow> bool" where
  "never_overwrites_read s [] i = True"
| "never_overwrites_read s (e # es) i =
     (\<not> overwrites_read s e i \<and> never_overwrites_read (fst (step s e)) es i)"

text \<open>The check of \<open>call-user\<close> once the entry of one call id is left out.\<close>

definition in_other_active_call :: "server \<Rightarrow> callId option \<Rightarrow> userId \<Rightarrow> bool" where
  "in_other_active_call s cid u =
     list_ex (\<lambda>(k, callData). k \<noteq> cid \<and> u \<in> set (ac_participants callData)) (activeCalls s)"

subsection \<open>Example documents\<close>

definition offline_user :: user_doc where
  "offline_user = \<lparr>u_isOnline = False, u_socketId = None, u_lastSeen = None\<rparr>"

definition four_users :: "userId \<rightharpoonup> user_doc" where
  "four_users = [1 \<mapsto> offline_user, 2 \<mapsto> offline_user, 3 \<mapsto> offline_user, 4 \<mapsto> offline_user]"

definition private_12 :: conversation where
  "private_12 = \<lparr>cv_participants = [1, 2], cv_type = Private, cv_lastMessage = None, cv_unreadCount = []\<rparr>"

definition group_123 :: conversation where
  "group_123 = \<lparr>cv_participants = [1, 2, 3], cv_type = Group, cv_lastMessage = None, cv_unreadCount = []\<rparr>"

text \<open>
  A \<open>send-message\<close> of user 1 in the group conversation that is suspended after
  \<open>Message.create\<close>, the bulk read of user 2 that arrives then, and the rest of the
  handler: \<open>conversation.save()\<close>, the publication, and \<open>message.save()\<close>.
\<close>

definition send_created :: "event list" where
  "send_created =
     [Connection 1 10, Connection 2 20, Connection 3 30,
      SendMessageArrives 1 10 0 ''hi'' None None,
      SendMessageResumes 0 5 NoFault,
      SendMessageResumes 0 6 NoFault]"

definition read_while_suspended :: "event list" where
  "read_while_suspended = send_created @ [MessagesRead 2 20 0 9 NoFault]"

definition rest_of_send :: "event list" where
  "rest_of_send =
     [SendMessageResumes 0 10 NoFault,
      SendMessageResumes 0 11 NoFault,
      SendMessageResumes 0 12 NoFault]"

section \<open>Which handler touches which part of the state\<close>

lemmas handler_defs = init_def four_users_def offline_user_def private_12_def group_123_def
  send_created_def read_while_suspended_def rest_of_send_def overwrites_read_def recorded_reader_def
  connection_def disconnect_def call_user_def answer_call_def reject_call_def end_call_def user_busy_def
  initiateCall_def acceptCall_def rejectCall_def endCall_def create_call_def findOrCreatePrivate_def
  send_message_def messages_read_def sendMessage_def markAsRead_def
  sendFileMessage_def sendVoiceMessage_def store_file_message_def file_type_def
  Call_findByIdAndUpdate_def User_findByIdAndUpdate_def Call_save_def pre_save_def findById_def
  parse_call_type_def emit_to_doc_def is_private_of_def pending_participant_def
  send_message_run_def then_resume_def send_message_arrives_def send_message_resumes_def
  Conversation_save_def Message_save_delivered_def
  relay_def in_active_call_def in_other_active_call_def Set_add_def notify_participants_def
  getUserSocketId_def message_types_def default_type_def new_message_def unread_of_def
  increment_unread_def update_conversation_def error_event_def online_recipients_def mark_read_def
  Message_updateMany_read_def reset_unread_def Let_def
  AList.delete_eq AList.update.simps AList.map_entry.simps

lemma Call_findByIdAndUpdate_frame:
  "onlineUsers (Call_findByIdAndUpdate cid upd s) = onlineUsers s"
  "userSockets (Call_findByIdAndUpdate cid upd s) = userSockets s"
  "activeCalls (Call_findByIdAndUpdate cid upd s) = activeCalls s"
  "Message_db (Call_findByIdAndUpdate cid upd s) = Message_db s"
  "Conversation_db (Call_findByIdAndUpdate cid upd s) = Conversation_db s"
  "User_db (Call_findByIdAndUpdate cid upd s) = User_db s"
  by (simp_all add: Call_findByIdAndUpdate_def split: option.splits)

lemma User_findByIdAndUpdate_frame:
  "onlineUsers (User_findByIdAndUpdate uid upd s) = onlineUsers s"
  "userSockets (User_findByIdAndUpdate uid upd s) = userSockets s"
  "activeCalls (User_findByIdAndUpdate uid upd s) = activeCalls s"
  "Message_db (User_findByIdAndUpdate uid upd s) = Message_db s"
  "Conversation_db (User_findByIdAndUpdate uid upd s) = Conversation_db s"
  "Call_db (User_findByIdAndUpdate uid upd s) = Call_db s"
  by (simp_all add: User_findByIdAndUpdate_def split: option.splits)

lemma Call_save_frame:
  "onlineUsers (Call_save i c s) = onlineUsers s"
  "activeCalls (Call_save i c s) = activeCalls s"
  "Message_db (Call_save i c s) = Message_db s"
  by (simp_all add: Call_save_def)

lemma cleanup_calls_frame:
  "onlineUsers (fst (cleanup_calls u now entries s)) = onlineUsers s \<and>
   Message_db (fst (cleanup_calls u now entries s)) = Message_db s"
  by (induction u now entries s rule: cleanup_calls.induct)
     (simp_all add: Let_def case_prod_beta Call_findByIdAndUpdate_frame)

lemma connection_onlineUsers:
  "onlineUsers (fst (connection s u sid)) = (onlineUsers s)(u \<mapsto> sid)"
  by (simp add: connection_def Let_def User_findByIdAndUpdate_frame)

lemma disconnect_onlineUsers:
  "onlineUsers (fst (disconnect s u sid now)) = (onlineUsers s)(u := None)"
  using cleanup_calls_frame [of u now "activeCalls s" "s\<lparr>onlineUsers := (onlineUsers s)(u := None), userSockets := (userSockets s)(sid := None)\<rparr>"]
  by (simp add: disconnect_def Let_def case_prod_beta User_findByIdAndUpdate_frame)

lemma findOrCreatePrivate_frame:
  "onlineUsers (snd (findOrCreatePrivate s a b)) = onlineUsers s"
  "Message_db (snd (findOrCreatePrivate s a b)) = Message_db s"
  by (simp_all add: findOrCreatePrivate_def split: option.splits)

lemma create_call_frame:
  "onlineUsers (fst (create_call s cv u ps ty g r)) = onlineUsers s"
  "Message_db (fst (create_call s cv u ps ty g r)) = Message_db s"
  by (simp_all add: create_call_def Let_def)

lemma call_handlers_frame:
  "onlineUsers (fst (call_user s u sid v sg ct cid)) = onlineUsers s"
  "Message_db (fst (call_user s u sid v sg ct cid)) = Message_db s"
  "onlineUsers (fst (answer_call s u sg to cid now)) = onlineUsers s"
  "Message_db (fst (answer_call s u sg to cid now)) = Message_db s"
  "onlineUsers (fst (reject_call s u to cid)) = onlineUsers s"
  "Message_db (fst (reject_call s u to cid)) = Message_db s"
  "onlineUsers (fst (end_call s u to cid)) = onlineUsers s"
  "Message_db (fst (end_call s u to cid)) = Message_db s"
  "onlineUsers (fst (user_busy s u to cid)) = onlineUsers s"
  "Message_db (fst (user_busy s u to cid)) = Message_db s"
  by (simp_all add: call_user_def answer_call_def reject_call_def end_call_def user_busy_def
        Let_def Call_findByIdAndUpdate_frame split: option.splits)

lemma rest_call_frame:
  "onlineUsers (fst (initiateCall s u r ty g cv room)) = onlineUsers s"
  "Message_db (fst (initiateCall s u r ty g cv room)) = Message_db s"
  "onlineUsers (fst (acceptCall s u cid now)) = onlineUsers s"
  "Message_db (fst (acceptCall s u cid now)) = Message_db s"
  "onlineUsers (fst (rejectCall s u cid now)) = onlineUsers s"
  "Message_db (fst (rejectCall s u cid now)) = Message_db s"
  "onlineUsers (fst (endCall s u cid now)) = onlineUsers s"
  "Message_db (fst (endCall s u cid now)) = Message_db s"
  by (simp_all add: initiateCall_def acceptCall_def rejectCall_def endCall_def
        Let_def case_prod_beta Call_save_frame create_call_frame findOrCreatePrivate_frame
        split: option.splits participant_lookup.splits)


lemma send_message_resume_onlineUsers:
  "onlineUsers (fst (send_message_resume s rq pc now f)) = onlineUsers s"
  by (cases pc)
     (simp_all add: Let_def Conversation_save_def Message_save_delivered_def split: option.splits)

lemma send_message_resume_suspended:
  "suspended (fst (send_message_resume s rq pc now f)) = suspended s"
  by (cases pc)
     (simp_all add: Let_def Conversation_save_def Message_save_delivered_def split: option.splits)

lemmas send_message_resume_frame = send_message_resume_onlineUsers send_message_resume_suspended

lemma send_message_run_onlineUsers:
  "onlineUsers (fst (send_message_run s rq now f)) = onlineUsers s"
  by (simp add: send_message_run_def then_resume_def Let_def send_message_resume_frame
        del: send_message_resume.simps)

lemma message_handlers_onlineUsers:
  "onlineUsers (fst (send_message s u sid cv content ty rep now f)) = onlineUsers s"
  "onlineUsers (fst (send_message_arrives s u sid cv content ty rep)) = onlineUsers s"
  "onlineUsers (fst (send_message_resumes s k now f)) = onlineUsers s"
  "onlineUsers (fst (messages_read s u sid cv now f)) = onlineUsers s"
  "onlineUsers (fst (sendMessage s u cv content ty rep f)) = onlineUsers s"
  "onlineUsers (fst (markAsRead s u cv now f)) = onlineUsers s"
  "onlineUsers (fst (sendFileMessage s u cv file rep f)) = onlineUsers s"
  "onlineUsers (fst (sendVoiceMessage s u cv file f)) = onlineUsers s"
  by (simp_all add: send_message_def send_message_run_onlineUsers send_message_arrives_def
        send_message_resumes_def send_message_resume_frame
        messages_read_def sendMessage_def markAsRead_def
        sendFileMessage_def sendVoiceMessage_def store_file_message_def
        Message_updateMany_read_def reset_unread_def Let_def split: option.splits)

lemma step_lookup:
  "getUserSocketId (fst (step s e)) u = lookup_after u (getUserSocketId s u) e"
  by (cases e)
     (simp_all add: getUserSocketId_def connection_onlineUsers disconnect_onlineUsers
        call_handlers_frame rest_call_frame message_handlers_onlineUsers)

text \<open>What one resumption does to the stored messages.\<close>

lemma send_message_resume_Message_db:
  "Message_db (fst (send_message_resume s rq pc now f)) =
     (case pc of
        AtCreate conversation \<Rightarrow>
          if f = CreateFails \<or> default_type (rq_type rq) \<notin> set message_types then Message_db s
          else Message_db s @ [new_message (rq_conversationId rq) (rq_userId rq) (rq_content rq)
                                 (default_type (rq_type rq)) (rq_replyTo rq)]
      | AtMessageSave mid deliveredTo \<Rightarrow>
          if f = MessageSaveFails \<or> \<not> mid < length (Message_db s) then Message_db s
          else (Message_db s)[mid := (Message_db s ! mid)
                 \<lparr>m_status := Delivered, m_deliveredTo := m_deliveredTo (Message_db s ! mid) @ deliveredTo\<rparr>]
      | _ \<Rightarrow> Message_db s)"
  by (cases pc)
     (simp_all add: Let_def Conversation_save_def Message_save_delivered_def findById_def
        split: option.splits)

text \<open>
  Run without interruption, the handler leaves the messages stored before it as they
  were: its delivered write lands on the message it has just created.
\<close>

lemma send_message_Message_db:
  "Message_db (fst (send_message s u sid cv content ty rep now f)) = Message_db s \<or>
   (\<exists>m. Message_db (fst (send_message s u sid cv content ty rep now f)) = Message_db s @ [m])"
  by (simp add: send_message_def send_message_run_def then_resume_def Let_def
        Conversation_save_def Message_save_delivered_def findById_def
        split: option.splits)


lemma send_message_resumes_Message_db:
  "Message_db (fst (send_message_resumes s k now f)) =
     (if k < length (suspended s)
      then Message_db (fst (send_message_resume s (fst (suspended s ! k)) (snd (suspended s ! k)) now f))
      else Message_db s)"
  by (simp add: send_message_resumes_def Let_def)

lemma sendMessage_Message_db:
  "Message_db (fst (sendMessage s u cv content ty rep f)) = Message_db s \<or>
   (\<exists>m. Message_db (fst (sendMessage s u cv content ty rep f)) = Message_db s @ [m])"
  by (simp add: sendMessage_def Let_def split: option.splits)

lemma store_file_message_Message_db:
  "Message_db (fst (store_file_message s u cv c ty rep f)) = Message_db s \<or>
   (\<exists>m. Message_db (fst (store_file_message s u cv c ty rep f)) = Message_db s @ [m])"
  by (simp add: store_file_message_def Let_def)

lemma sendFileMessage_Message_db:
  "Message_db (fst (sendFileMessage s u cv file rep f)) = Message_db s \<or>
   (\<exists>m. Message_db (fst (sendFileMessage s u cv file rep f)) = Message_db s @ [m])"
  using store_file_message_Message_db
  by (simp add: sendFileMessage_def split: option.splits)

lemma sendVoiceMessage_Message_db:
  "Message_db (fst (sendVoiceMessage s u cv file f)) = Message_db s \<or>
   (\<exists>m. Message_db (fst (sendVoiceMessage s u cv file f)) = Message_db s @ [m])"
  using store_file_message_Message_db
  by (simp add: sendVoiceMessage_def split: option.splits)

lemma read_Message_db:
  "Message_db (fst (messages_read s u sid cv now f)) =
     (if f = UpdateManyFails then Message_db s else map (mark_read cv u now) (Message_db s))"
  "Message_db (fst (markAsRead s u cv now f)) =
     (if f = UpdateManyFails then Message_db s else map (mark_read cv u now) (Message_db s))"
  by (simp_all add: messages_read_def markAsRead_def Let_def Message_updateMany_read_def
        reset_unread_def split: option.splits)

lemma disconnect_Message_db: "Message_db (fst (disconnect s u sid now)) = Message_db s"
  using cleanup_calls_frame [of u now "activeCalls s" "s\<lparr>onlineUsers := (onlineUsers s)(u := None), userSockets := (userSockets s)(sid := None)\<rparr>"]
  by (simp add: disconnect_def Let_def case_prod_beta User_findByIdAndUpdate_frame)

lemma connection_Message_db: "Message_db (fst (connection s u sid)) = Message_db s"
  by (simp add: connection_def Let_def User_findByIdAndUpdate_frame)

text \<open>
  One event and one stored message: a bulk read applies \<open>mark_read\<close> to it, a delivered
  write that lands on it sets \<open>delivered\<close> and touches nothing else that is read here,
  and any other event leaves it as it is.
\<close>

lemma step_read:
  assumes "read_of e = Some (cv, u, now)"
  shows "Message_db (fst (step s e)) = map (mark_read cv u now) (Message_db s)"
  using assms by (cases e) (simp_all add: read_Message_db split: if_splits)

lemma step_delivered:
  assumes "delivered_write_to s e i" and "i < length (Message_db s)"
  shows "i < length (Message_db (fst (step s e))) \<and>
         m_status (Message_db (fst (step s e)) ! i) = Delivered \<and>
         m_readBy (Message_db (fst (step s e)) ! i) = m_readBy (Message_db s ! i) \<and>
         m_conversation (Message_db (fst (step s e)) ! i) = m_conversation (Message_db s ! i) \<and>
         m_sender (Message_db (fst (step s e)) ! i) = m_sender (Message_db s ! i)"
proof (cases e)
  case (SendMessageResumes k now f)
  with assms show ?thesis
    by (cases "snd (suspended s ! k)")
       (simp_all add: send_message_resumes_Message_db send_message_resume_Message_db
          del: send_message_resume.simps)
qed (use assms in simp_all)

lemma step_other:
  assumes "read_of e = None" and "\<not> delivered_write_to s e i" and "i < length (Message_db s)"
  shows "i < length (Message_db (fst (step s e))) \<and>
         Message_db (fst (step s e)) ! i = Message_db s ! i"
proof (cases e)
  case (SendMessage u sid cv content ty rep now f)
  then show ?thesis
    using send_message_Message_db [of s u sid cv content ty rep now f] assms(3)
    by (auto simp: nth_append)
next
  case (SendMessageResumes k now f)
  with assms show ?thesis
    by (cases "snd (suspended s ! k)")
       (auto simp add: send_message_resumes_Message_db send_message_resume_Message_db nth_append
          simp del: send_message_resume.simps)
next
  case (MessagesRead u sid cv now f)
  with assms show ?thesis by (simp add: read_Message_db split: if_splits)
next
  case (RestSendMessage u cv content ty rep f)
  then show ?thesis
    using sendMessage_Message_db [of s u cv content ty rep f] assms(3) by (auto simp: nth_append)
next
  case (RestSendFileMessage u cv upload rep f)
  then show ?thesis
    using sendFileMessage_Message_db [of s u cv upload rep f] assms(3) by (auto simp: nth_append)
next
  case (RestSendVoiceMessage u cv upload f)
  then show ?thesis
    using sendVoiceMessage_Message_db [of s u cv upload f] assms(3) by (auto simp: nth_append)
next
  case (RestMarkAsRead u cv now f)
  with assms show ?thesis by (simp add: read_Message_db split: if_splits)
qed (use assms(3) in \<open>simp_all add: connection_Message_db disconnect_Message_db call_handlers_frame
      rest_call_frame send_message_arrives_def\<close>)


lemma mark_read_rank: "status_rank (m_status m) \<le> status_rank (m_status (mark_read cv u now m))"
  by (cases "m_status m") (simp_all add: mark_read_def)

lemma run_append: "run s (es @ es') = run (run s es) es'"
  by (induction es arbitrary: s) simp_all

lemma step_length:
  assumes "i < length (Message_db s)"
  shows "i < length (Message_db (fst (step s e)))"
proof (cases "read_of e")
  case None
  then show ?thesis
    using step_other [of e s i] step_delivered [of s e i] assms by blast
next
  case (Some r)
  then show ?thesis using step_read [of e "fst r" "fst (snd r)" "snd (snd r)" s] assms by simp
qed

lemma step_status:
  assumes "i < length (Message_db s)"
  shows "min (status_rank (m_status (Message_db s ! i))) 1
           \<le> status_rank (m_status (Message_db (fst (step s e)) ! i)) \<and>
         (\<not> overwrites_read s e i \<longrightarrow>
            status_rank (m_status (Message_db s ! i))
              \<le> status_rank (m_status (Message_db (fst (step s e)) ! i)))"
proof (cases "read_of e")
  case (Some r)
  obtain cv u now where r: "r = (cv, u, now)" by (cases r) auto
  have "status_rank (m_status (Message_db s ! i))
          \<le> status_rank (m_status (Message_db (fst (step s e)) ! i))"
    using step_read [of e cv u now s] Some r assms by (simp add: mark_read_rank)
  then show ?thesis by simp
next
  case None
  show ?thesis
  proof (cases "delivered_write_to s e i")
    case True
    from step_delivered [OF True assms]
    have d: "m_status (Message_db (fst (step s e)) ! i) = Delivered"
      by simp
    show ?thesis
      using d True by (cases "m_status (Message_db s ! i)") (simp_all add: overwrites_read_def)
  next
    case False
    from step_other [OF None False assms] show ?thesis by simp
  qed
qed

lemma recorded_reader_cong:
  "m_conversation m' = m_conversation m \<Longrightarrow> m_sender m' = m_sender m \<Longrightarrow>
     recorded_reader e m' = recorded_reader e m"
  by (simp add: recorded_reader_def split: option.splits)

text \<open>
  One event that does not overwrite a read, seen from one stored message: it records
  its reader on a message that is not yet \<open>read\<close> and sets it \<open>read\<close>; otherwise the
  read receipts stay, and a message stays \<open>read\<close> or stays not \<open>read\<close>.
\<close>

lemma step_readBy:
  assumes "i < length (Message_db s)" and "\<not> overwrites_read s e i"
  shows "m_conversation (Message_db (fst (step s e)) ! i) = m_conversation (Message_db s ! i) \<and>
         m_sender (Message_db (fst (step s e)) ! i) = m_sender (Message_db s ! i) \<and>
         (if m_status (Message_db s ! i) = Read
          then m_status (Message_db (fst (step s e)) ! i) = Read \<and>
               m_readBy (Message_db (fst (step s e)) ! i) = m_readBy (Message_db s ! i)
          else (case recorded_reader e (Message_db s ! i) of
                  Some r \<Rightarrow>
                    m_status (Message_db (fst (step s e)) ! i) = Read \<and>
                    m_readBy (Message_db (fst (step s e)) ! i) = m_readBy (Message_db s ! i) @ [r]
                | None \<Rightarrow>
                    m_status (Message_db (fst (step s e)) ! i) \<noteq> Read \<and>
                    m_readBy (Message_db (fst (step s e)) ! i) = m_readBy (Message_db s ! i)))"
proof (cases "read_of e")
  case (Some r)
  obtain cv u now where r: "r = (cv, u, now)" by (cases r) auto
  from step_read [of e cv u now s] Some r assms(1)
  have "Message_db (fst (step s e)) ! i = mark_read cv u now (Message_db s ! i)"
    by simp
  then show ?thesis
    using Some r by (simp add: recorded_reader_def mark_read_def)
next
  case None
  show ?thesis
  proof (cases "delivered_write_to s e i")
    case True
    with assms(2) have "m_status (Message_db s ! i) \<noteq> Read"
      by (simp add: overwrites_read_def)
    with step_delivered [OF True assms(1)] None show ?thesis
      by (simp add: recorded_reader_def)
  next
    case False
    from step_other [OF None False assms(1)] None show ?thesis
      by (simp add: recorded_reader_def)
  qed
qed

lemma complete_handlers_never_overwrite_read:
  "list_all (\<lambda>e. \<not> resumption e) evs \<Longrightarrow> never_overwrites_read s evs i"
proof (induction evs arbitrary: s)
  case Nil
  then show ?case by simp
next
  case (Cons e evs)
  then show ?case by (cases e) (simp_all add: overwrites_read_def)
qed

subsection \<open>The suspended handler and the handler run to completion\<close>

lemma send_message_resume_with_suspended:
  "send_message_resume (s\<lparr>suspended := x\<rparr>) rq pc now f =
     (let r = send_message_resume s rq pc now f
      in ((fst r)\<lparr>suspended := x\<rparr>, fst (snd r), snd (snd r)))"
  by (cases pc)
     (simp_all add: Let_def Conversation_save_def Message_save_delivered_def online_recipients_def
        split: option.splits)

lemma send_message_run_finished:
  "snd (snd (send_message_run s rq now f)) = Finished"
  by (simp add: send_message_run_def then_resume_def Let_def split: option.splits)

lemma send_message_resumes_last:
  assumes "suspended s = sus @ [(rq, pc)]"
  shows "send_message_resumes s (length sus) now f =
           ((fst (send_message_resume s rq pc now f))
              \<lparr>suspended := sus @ [(rq, snd (snd (send_message_resume s rq pc now f)))]\<rparr>,
            fst (snd (send_message_resume s rq pc now f)))"
  using assms by (simp add: send_message_resumes_def Let_def send_message_resume_suspended)

lemma then_resume_suspended:
  assumes "s' = (fst r)\<lparr>suspended := sus @ [(rq, snd (snd r))]\<rparr>"
  shows "fst (send_message_resumes s' (length sus) now f)
           = (fst (then_resume rq now f r))\<lparr>suspended := sus @ [(rq, snd (snd (then_resume rq now f r)))]\<rparr>"
    and "fst (snd r) @ snd (send_message_resumes s' (length sus) now f)
           = fst (snd (then_resume rq now f r))"
proof -
  have "suspended s' = sus @ [(rq, snd (snd r))]"
    using assms by simp
  from send_message_resumes_last [OF this, of now f] assms
  show "fst (send_message_resumes s' (length sus) now f)
           = (fst (then_resume rq now f r))\<lparr>suspended := sus @ [(rq, snd (snd (then_resume rq now f r)))]\<rparr>"
    and "fst (snd r) @ snd (send_message_resumes s' (length sus) now f)
           = fst (snd (then_resume rq now f r))"
    by (simp_all add: then_resume_def Let_def send_message_resume_with_suspended
          del: send_message_resume.simps)
qed

text \<open>
  Arrival and five resumptions in a row, with nothing in between, store and emit what
  the handler run to completion does; the handler is then finished.
\<close>

lemma send_message_is_its_resumptions:
  fixes s u sid cv content ty rep now f
  defines "rq \<equiv> \<lparr>rq_userId = u, rq_sid = sid, rq_conversationId = cv,
                   rq_content = content, rq_type = ty, rq_replyTo = rep\<rparr>"
    and "k \<equiv> length (suspended s)"
  defines "evs \<equiv> [SendMessageArrives u sid cv content ty rep,
                   SendMessageResumes k now f, SendMessageResumes k now f,
                   SendMessageResumes k now f, SendMessageResumes k now f,
                   SendMessageResumes k now f]"
  shows "run s evs = (fst (send_message s u sid cv content ty rep now f))
                       \<lparr>suspended := suspended s @ [(rq, Finished)]\<rparr>"
    and "outputs s evs = snd (send_message s u sid cv content ty rep now f)"
proof -
  let ?sus = "suspended s"
  let ?T = "then_resume rq now f"
  let ?r0 = "(s, [] :: outmsg list, AtFindById)"
  let ?r1 = "?T ?r0" let ?r2 = "?T ?r1" let ?r3 = "?T ?r2" let ?r4 = "?T ?r3" let ?r5 = "?T ?r4"
  let ?s0 = "fst (step s (SendMessageArrives u sid cv content ty rep))"
  let ?s1 = "fst (send_message_resumes ?s0 k now f)"
  let ?s2 = "fst (send_message_resumes ?s1 k now f)"
  let ?s3 = "fst (send_message_resumes ?s2 k now f)"
  let ?s4 = "fst (send_message_resumes ?s3 k now f)"
  let ?s5 = "fst (send_message_resumes ?s4 k now f)"
  have e0: "?s0 = (fst ?r0)\<lparr>suspended := ?sus @ [(rq, snd (snd ?r0))]\<rparr>"
    and o0: "snd (step s (SendMessageArrives u sid cv content ty rep)) = []"
    by (simp_all add: send_message_arrives_def rq_def)
  note e1 = then_resume_suspended(1) [OF e0, of now f, folded k_def]
  note o1 = then_resume_suspended(2) [OF e0, of now f, folded k_def]
  note e2 = then_resume_suspended(1) [OF e1, of now f, folded k_def]
  note o2 = then_resume_suspended(2) [OF e1, of now f, folded k_def]
  note e3 = then_resume_suspended(1) [OF e2, of now f, folded k_def]
  note o3 = then_resume_suspended(2) [OF e2, of now f, folded k_def]
  note e4 = then_resume_suspended(1) [OF e3, of now f, folded k_def]
  note o4 = then_resume_suspended(2) [OF e3, of now f, folded k_def]
  note e5 = then_resume_suspended(1) [OF e4, of now f, folded k_def]
  note o5 = then_resume_suspended(2) [OF e4, of now f, folded k_def]
  have fin: "snd (snd ?r5) = Finished"
    using send_message_run_finished [of s rq now f] by (simp add: send_message_run_def)
  have "run s evs = ?s5"
    by (simp add: evs_def)
  also have "\<dots> = (fst ?r5)\<lparr>suspended := ?sus @ [(rq, Finished)]\<rparr>"
    using e5 fin by simp
  finally show "run s evs = (fst (send_message s u sid cv content ty rep now f))
                       \<lparr>suspended := suspended s @ [(rq, Finished)]\<rparr>"
    by (simp add: send_message_def send_message_run_def rq_def Let_def)
  have "outputs s evs =
          snd (send_message_resumes ?s0 k now f) @ snd (send_message_resumes ?s1 k now f) @
          snd (send_message_resumes ?s2 k now f) @ snd (send_message_resumes ?s3 k now f) @
          snd (send_message_resumes ?s4 k now f)"
    using o0 by (simp add: evs_def)
  also have "\<dots> = fst (snd ?r5)"
    using o1 o2 o3 o4 o5 by (metis append.assoc append_Nil fst_conv snd_conv)
  finally show "outputs s evs = snd (send_message s u sid cv content ty rep now f)"
    by (simp add: send_message_def send_message_run_def rq_def Let_def)
qed

section \<open>The REST handlers on the stored call and message\<close>

text \<open>
  The \<open>save\<close> middleware only writes \<open>duration\<close>. \<open>acceptCall\<close> starts the call on the
  first accept only, \<open>rejectCall\<close> marks the call rejected exactly when every participant
  entry is rejected after the update, \<open>endCall\<close> stores the elapsed whole seconds, and
  \<open>sendMessage\<close> turns away unknown conversations and senders that are not participants
  before anything is created.
\<close>

lemma pre_save_fields:
  "c_status (pre_save c) = c_status c"
  "c_startedAt (pre_save c) = c_startedAt c"
  "c_endedAt (pre_save c) = c_endedAt c"
  "c_participants (pre_save c) = c_participants c"
  by (simp_all add: pre_save_def split: option.splits)

lemma pre_save_duration:
  "c_startedAt c = Some st \<Longrightarrow> c_endedAt c = Some en \<Longrightarrow> c_duration (pre_save c) = (en - st) div 1000"
  by (simp add: pre_save_def)

lemma acceptCall_first_accept_wins:
  assumes "findById (Call_db s) cid = Some c"
    and "find_participant (User_db s) reqUser (c_participants c) = ParticipantAt i"
  shows "c_status (Call_db (fst (acceptCall s reqUser cid now)) ! cid)
           = (if c_status c = Ringing then Ongoing else c_status c) \<and>
         c_startedAt (Call_db (fst (acceptCall s reqUser cid now)) ! cid)
           = (if c_status c = Ringing then Some now else c_startedAt c)"
  using assms
  by (auto simp: acceptCall_def Call_save_def findById_def Let_def pre_save_fields
        split: if_splits option.splits)

lemma rejectCall_rejected_iff_all:
  assumes "findById (Call_db s) cid = Some c"
    and "find_participant (User_db s) reqUser (c_participants c) = ParticipantAt i"
  shows "c_status (Call_db (fst (rejectCall s reqUser cid now)) ! cid)
           = (if list_all (\<lambda>p. p_status p = PRejected)
                   (c_participants (Call_db (fst (rejectCall s reqUser cid now)) ! cid))
              then Rejected else c_status c) \<and>
         c_endedAt (Call_db (fst (rejectCall s reqUser cid now)) ! cid)
           = (if list_all (\<lambda>p. p_status p = PRejected)
                   (c_participants (Call_db (fst (rejectCall s reqUser cid now)) ! cid))
              then Some now else c_endedAt c)"
  using assms
  by (auto simp: rejectCall_def Call_save_def findById_def Let_def pre_save_fields
        split: if_splits option.splits)

lemma endCall_duration:
  assumes "findById (Call_db s) cid = Some c" and "c_startedAt c = Some st"
  shows "c_duration (Call_db (fst (endCall s reqUser cid now)) ! cid) = (now - st) div 1000"
  using assms
  by (auto simp: endCall_def Call_save_def findById_def Let_def pre_save_def
        split: if_splits option.splits)

lemma sendMessage_rejects:
  "findById (Conversation_db s) cv = None \<Longrightarrow> f \<noteq> FindByIdFails \<Longrightarrow>
     sendMessage s reqUser cv content ty rep f = (s, [Response 404])"
  "findById (Conversation_db s) cv = Some c \<Longrightarrow> reqUser \<notin> set (cv_participants c) \<Longrightarrow>
     f \<noteq> FindByIdFails \<Longrightarrow>
     sendMessage s reqUser cv content ty rep f = (s, [Response 403])"
  by (simp_all add: sendMessage_def)

section \<open>Presence registry\<close>

text \<open>
  Claim C1. After any sequence of events, \<open>getUserSocketId\<close> of a user is decided by the
  last connection or disconnect event of that user alone: the socket id of that
  connection when it is a connection, and no entry when it is a disconnect. The
  disconnect handler deletes the entry of the user whatever socket it comes from, so a
  disconnect from a superseded socket removes the entry of the newer one; a superseded
  socket id is never returned.
\<close>

theorem lookup_follows_last_presence_event:
  "getUserSocketId (run s evs) u = foldl (lookup_after u) (getUserSocketId s u) evs"
  by (induction evs arbitrary: s) (simp_all add: step_lookup)

theorem lookup_follows_last_presence_event_witness:
  "getUserSocketId (run (init four_users [])
      [Connection 1 10, Connection 2 20, Connection 1 11, Disconnect 2 20 5]) 1 = Some 11"
proof -
  have "getUserSocketId (run (init four_users [])
          [Connection 1 10, Connection 2 20, Connection 1 11, Disconnect 2 20 5]) 1
        = foldl (lookup_after 1) (getUserSocketId (init four_users []) 1)
            [Connection 1 10, Connection 2 20, Connection 1 11, Disconnect 2 20 5]"
    by (rule lookup_follows_last_presence_event)
  also have "\<dots> = Some 11"
    by (simp add: getUserSocketId_def init_def)
  finally show ?thesis .
qed

text \<open>
  User 1 connects on socket 10 and again on socket 11; the lookup gives 11. Socket 10 then
  disconnects, and the lookup gives nothing although socket 11 is still connected.
\<close>

theorem stale_disconnect_counterexample:
  "getUserSocketId (run (init four_users []) [Connection 1 10, Connection 1 11]) 1 = Some 11 \<and>
   getUserSocketId (run (init four_users []) [Connection 1 10, Connection 1 11, Disconnect 1 10 5]) 1 = None"
  by (simp add: handler_defs)

section \<open>Call state\<close>

text \<open>
  Claim C2. The call status is to become \<open>rejected\<close> exactly when every participant entry
  is \<open>rejected\<close>, with \<open>endedAt\<close> set. The REST handler \<open>rejectCall\<close> does that; the
  socket handler \<open>reject-call\<close> writes \<open>status: 'rejected'\<close> by query without looking at
  the participants. Here user 1 rings users 2 and 3 in a group call and user 2 alone
  rejects over the socket: the stored call is \<open>rejected\<close>, both participant entries are
  still \<open>pending\<close>, and \<open>endedAt\<close> is not set.
\<close>

theorem socket_reject_sets_call_rejected:
  "Call_db (run (init four_users [group_123])
      [Connection 1 10, Connection 2 20, Connection 3 30,
       RestInitiateCall 1 0 ''audio'' True (Some 0) ''room'',
       CallUser 1 10 2 ''offer'' ''audio'' (Some 0),
       CallUser 1 10 3 ''offer'' ''audio'' (Some 0),
       RejectCall 2 1 (Some 0)])
   = [\<lparr>c_conversation = Some 0, c_caller = 1,
       c_participants =
         [\<lparr>p_user = 2, p_joinedAt = None, p_leftAt = None, p_status = Pending\<rparr>,
          \<lparr>p_user = 3, p_joinedAt = None, p_leftAt = None, p_status = Pending\<rparr>],
       c_type = Audio, c_isGroupCall = True, c_status = Rejected,
       c_startedAt = None, c_endedAt = None, c_duration = 0, c_roomId = ''room''\<rparr>]"
  by (simp add: handler_defs)

text \<open>
  Claim C3. The transition from \<open>ringing\<close> to \<open>ongoing\<close> is to fire once, later accepts
  leaving \<open>status\<close> and \<open>startedAt\<close> alone. The REST handler \<open>acceptCall\<close> guards the
  transition with \<open>call.status === 'ringing'\<close>; the socket handler \<open>answer-call\<close> writes
  \<open>status: 'ongoing'\<close> and \<open>startedAt: new Date()\<close> on every answer. Here user 2 answers
  at time 1000 and user 3 answers the same call at time 5000: \<open>startedAt\<close> moves from 1000
  to 5000, and no participant entry changes.
\<close>

theorem socket_answer_resets_startedAt:
  "map (\<lambda>c. (c_status c, c_startedAt c, map p_status (c_participants c)))
     (Call_db (run (init four_users [group_123])
      [Connection 1 10, Connection 2 20, Connection 3 30,
       RestInitiateCall 1 0 ''audio'' True (Some 0) ''room'',
       AnswerCall 2 ''answer'' 1 (Some 0) 1000]))
   = [(Ongoing, Some 1000, [Pending, Pending])] \<and>
   map (\<lambda>c. (c_status c, c_startedAt c, map p_status (c_participants c)))
     (Call_db (run (init four_users [group_123])
      [Connection 1 10, Connection 2 20, Connection 3 30,
       RestInitiateCall 1 0 ''audio'' True (Some 0) ''room'',
       AnswerCall 2 ''answer'' 1 (Some 0) 1000,
       AnswerCall 3 ''answer'' 1 (Some 0) 5000]))
   = [(Ongoing, Some 5000, [Pending, Pending])]"
  by (simp add: handler_defs)

text \<open>
  Claim C4. When \<open>call-user\<close> names a callee who is online and already in the participant
  set of some entry of \<open>activeCalls\<close>, the caller's socket receives \<open>user-busy\<close>, no
  \<open>incoming-call-signal\<close> is sent, and the state is unchanged: the callee joins no
  further entry, and no stored participant status is written.
\<close>

theorem call_user_busy_callee:
  assumes "onlineUsers s userToCall = Some targetSocketId" and "in_active_call s userToCall"
  shows "call_user s userId sid userToCall signalData callType cid
         = (s, [Emit (ToSocket sid) (UserBusyOf userToCall cid)])"
  using assms by (simp add: call_user_def)

theorem call_user_busy_callee_witness:
  "onlineUsers (run (init four_users [])
      [Connection 1 10, Connection 2 20, Connection 3 30, CallUser 1 10 2 ''offer'' ''audio'' (Some 0)]) 2 = Some 20 \<and>
   in_active_call (run (init four_users [])
      [Connection 1 10, Connection 2 20, Connection 3 30, CallUser 1 10 2 ''offer'' ''audio'' (Some 0)]) 2 \<and>
   snd (call_user (run (init four_users [])
      [Connection 1 10, Connection 2 20, Connection 3 30, CallUser 1 10 2 ''offer'' ''audio'' (Some 0)])
      3 30 2 ''offer'' ''video'' (Some 1)) = [Emit (ToSocket 30) (UserBusyOf 2 (Some 1))]"
proof -
  let ?s = "run (init four_users [])
      [Connection 1 10, Connection 2 20, Connection 3 30, CallUser 1 10 2 ''offer'' ''audio'' (Some 0)]"
  have a: "onlineUsers ?s 2 = Some 20" by (simp add: handler_defs)
  have b: "in_active_call ?s 2" by (simp add: handler_defs)
  from call_user_busy_callee [OF a b, of 3 30 "''offer''" "''video''" "Some 1"] a b
  show ?thesis by simp
qed

text \<open>
  No handler writes the participant status \<open>busy\<close>, and \<open>initiateCall\<close> creates every
  callee entry as \<open>pending\<close> without a busy check. User 1 rings user 2; user 3 then
  initiates a second call to user 2 and gets \<open>user-busy\<close> on the socket: both stored calls
  are \<open>ringing\<close> and user 2 is \<open>pending\<close> in both.
\<close>

theorem busy_callee_pending_in_two_calls_counterexample:
  "map (\<lambda>c. (c_status c, map (\<lambda>p. (p_user p, p_status p)) (c_participants c)))
     (Call_db (run (init four_users [])
      [Connection 1 10, Connection 2 20, Connection 3 30,
       RestInitiateCall 1 2 ''audio'' False None ''room-a'',
       CallUser 1 10 2 ''offer'' ''audio'' (Some 0),
       RestInitiateCall 3 2 ''video'' False None ''room-b'',
       CallUser 3 30 2 ''offer'' ''video'' (Some 1)]))
   = [(Ringing, [(2, Pending)]), (Ringing, [(2, Pending)])]"
  by (simp add: handler_defs)

text \<open>
  Claim C8. A stored call with both \<open>startedAt\<close> and \<open>endedAt\<close> is to carry
  \<open>duration = floor((endedAt - startedAt) / 1000)\<close>. The \<open>save\<close> middleware computes it,
  and \<open>endCall\<close> goes through \<open>save\<close>; the disconnect cleanup writes \<open>status\<close> and
  \<open>endedAt\<close> by query, which runs no middleware. Here the call is accepted at time 1000
  and the caller disconnects at time 61000: the stored call is \<open>ended\<close> with both dates
  set, 60 seconds apart, and its duration is still 0.
\<close>

theorem disconnect_leaves_duration_unset:
  "Call_db (run (init four_users [])
      [Connection 1 10, Connection 2 20,
       RestInitiateCall 1 2 ''audio'' False None ''room'',
       CallUser 1 10 2 ''offer'' ''audio'' (Some 0),
       RestAcceptCall 2 0 1000,
       Disconnect 1 10 61000])
   = [\<lparr>c_conversation = Some 0, c_caller = 1,
       c_participants = [\<lparr>p_user = 2, p_joinedAt = Some 1000, p_leftAt = None, p_status = Accepted\<rparr>],
       c_type = Audio, c_isGroupCall = False, c_status = Ended,
       c_startedAt = Some 1000, c_endedAt = Some 61000, c_duration = 0, c_roomId = ''room''\<rparr>]"
  by (simp add: handler_defs)

text \<open>
  Claim C9. One \<open>reject-call\<close>, \<open>end-call\<close> or \<open>user-busy\<close> event naming a call id removes
  the whole entry of that call id from \<open>activeCalls\<close>, not only the acting participant.
  Afterwards the busy check of \<open>call-user\<close> finds a user exactly when the user is in the
  participant set of an entry with another call id: the remaining participants of the
  removed call are no longer busy on its account.
\<close>

theorem teardown_removes_whole_entry:
  assumes "e \<in> {RejectCall u to cid, EndCall u to cid, UserBusy u to cid}"
  shows "map_of (activeCalls (fst (step s e))) cid = None \<and>
         in_active_call (fst (step s e)) v = in_other_active_call s cid v"
proof -
  have "activeCalls (fst (step s e)) = AList.delete cid (activeCalls s)"
    using assms
    by (auto simp: reject_call_def end_call_def user_busy_def Let_def Call_findByIdAndUpdate_frame)
  then show ?thesis
    by (auto simp: in_active_call_def in_other_active_call_def AList.delete_eq list_ex_iff
          map_of_eq_None_iff)
qed

theorem teardown_removes_whole_entry_witness:
  "map_of (activeCalls (run (init four_users [])
      [Connection 1 10, Connection 2 20, Connection 3 30,
       CallUser 1 10 2 ''offer'' ''audio'' (Some 0), CallUser 1 10 3 ''offer'' ''audio'' (Some 0),
       RejectCall 2 1 (Some 0)])) (Some 0) = None \<and>
   \<not> in_active_call (run (init four_users [])
      [Connection 1 10, Connection 2 20, Connection 3 30,
       CallUser 1 10 2 ''offer'' ''audio'' (Some 0), CallUser 1 10 3 ''offer'' ''audio'' (Some 0),
       RejectCall 2 1 (Some 0)]) 3"
proof -
  let ?evs = "[Connection 1 10, Connection 2 20, Connection 3 30,
       CallUser 1 10 2 ''offer'' ''audio'' (Some 0), CallUser 1 10 3 ''offer'' ''audio'' (Some 0)]"
  let ?s = "run (init four_users []) ?evs"
  have a: "RejectCall 2 1 (Some 0) \<in> {RejectCall 2 1 (Some 0), EndCall 2 1 (Some 0), UserBusy 2 1 (Some 0)}"
    by simp
  have b: "\<not> in_other_active_call ?s (Some 0) 3" by (simp add: handler_defs)
  have c: "run (init four_users []) (?evs @ [RejectCall 2 1 (Some 0)]) = run ?s [RejectCall 2 1 (Some 0)]"
    by (rule run_append)
  from teardown_removes_whole_entry [OF a, of ?s 3] b c show ?thesis by simp
qed

text \<open>
  A remaining participant can still be busy. User 1 rings users 2 and 3 under call id 0,
  user 2 rings user 4 under call id 1 (the caller of \<open>call-user\<close> is added to the entry
  without a busy check), and user 3 rejects call 0. User 2 was a participant of call 0
  and is still found by the busy check, through the entry of call 1.
\<close>

theorem remaining_participant_still_busy_counterexample:
  "activeCalls (run (init four_users [])
      [Connection 1 10, Connection 2 20, Connection 3 30, Connection 4 40,
       CallUser 1 10 2 ''offer'' ''audio'' (Some 0), CallUser 1 10 3 ''offer'' ''audio'' (Some 0),
       CallUser 2 20 4 ''offer'' ''audio'' (Some 1),
       RejectCall 3 1 (Some 0)])
   = [(Some 1, \<lparr>ac_participants = [2, 4], ac_type = ''audio''\<rparr>)] \<and>
   outputs (run (init four_users [])
      [Connection 1 10, Connection 2 20, Connection 3 30, Connection 4 40,
       CallUser 1 10 2 ''offer'' ''audio'' (Some 0), CallUser 1 10 3 ''offer'' ''audio'' (Some 0),
       CallUser 2 20 4 ''offer'' ''audio'' (Some 1),
       RejectCall 3 1 (Some 0)])
      [CallUser 3 30 2 ''offer'' ''audio'' (Some 2)]
   = [Emit (ToSocket 30) (UserBusyOf 2 (Some 2))]"
  by (simp add: handler_defs)

section \<open>Message delivery\<close>

text \<open>
  Claim C5. A submission by a sender who is not a participant is to be rejected, and one
  to an unknown conversation is to fail, each with an error reported and no side effect.
  The REST handler \<open>sendMessage\<close> answers 403 and 404 before it creates anything. The
  socket handler \<open>send-message\<close> has no participant check and returns silently when the
  conversation is unknown. Here user 3 sends to conversation 0, whose participants are
  users 1 and 2: the message is stored, both unread counters are incremented, and the
  message is published; a submission to the unknown conversation 5 produces no output at
  all.
\<close>

theorem socket_send_by_non_participant:
  "Message_db (run (init four_users [private_12])
      [Connection 2 20, Connection 3 30, SendMessage 3 30 0 ''hi'' None None 7 NoFault])
   = [\<lparr>m_conversation = 0, m_sender = 3, m_type = ''text'', m_content = ''hi'', m_replyTo = None,
       m_status = Delivered, m_readBy = [], m_deliveredTo = [(2, 7)]\<rparr>] \<and>
   Conversation_db (run (init four_users [private_12])
      [Connection 2 20, Connection 3 30, SendMessage 3 30 0 ''hi'' None None 7 NoFault])
   = [\<lparr>cv_participants = [1, 2], cv_type = Private, cv_lastMessage = Some 0,
       cv_unreadCount = [(1, 1), (2, 1)]\<rparr>] \<and>
   outputs (run (init four_users [private_12]) [Connection 2 20, Connection 3 30])
      [SendMessage 3 30 0 ''hi'' None None 7 NoFault]
   = [Emit (ToRoom (ConversationRoom 0)) (NewMessage 0),
      Emit (ToRoom (ConversationRoom 0)) (MessageStatusUpdate 0 Delivered)] \<and>
   outputs (run (init four_users [private_12]) [Connection 2 20, Connection 3 30])
      [SendMessage 3 30 5 ''hi'' None None 7 NoFault]
   = []"
  by (simp add: handler_defs)

text \<open>
  Claim C6. When the message has been created and saving the conversation (the unread
  counters and \<open>lastMessage\<close>) then throws, the \<open>catch\<close> block of \<open>send-message\<close> ends the
  handler: the created message stays stored with status \<open>sent\<close>, the conversation is
  not updated, nothing is published to the conversation room, no delivery is recorded,
  and the sender's socket receives the \<open>error\<close> event \<open>Failed to send message\<close>.
\<close>

theorem conversation_save_failure_aborts_send:
  assumes "findById (Conversation_db s) conversationId = Some conversation"
    and "default_type type \<in> set message_types"
  shows "send_message s userId sid conversationId content type replyTo now ConversationSaveFails
         = (s\<lparr>Message_db := Message_db s @
                 [new_message conversationId userId content (default_type type) replyTo]\<rparr>,
            [Emit (ToSocket sid) (ErrorEvent ''Failed to send message'')])"
  using assms
  by (simp add: send_message_def send_message_run_def then_resume_def error_event_def Let_def)

theorem conversation_save_failure_aborts_send_witness:
  "findById (Conversation_db (run (init four_users [private_12]) [Connection 1 10, Connection 2 20])) 0
     = Some private_12 \<and>
   default_type None \<in> set message_types \<and>
   Message_db (fst (send_message (run (init four_users [private_12]) [Connection 1 10, Connection 2 20])
      1 10 0 ''hi'' None None 7 ConversationSaveFails))
     = [new_message 0 1 ''hi'' ''text'' None]"
proof -
  let ?s = "run (init four_users [private_12]) [Connection 1 10, Connection 2 20]"
  have a: "findById (Conversation_db ?s) 0 = Some private_12" by (simp add: handler_defs)
  have b: "default_type None \<in> set message_types" by (simp add: handler_defs)
  have c: "Message_db ?s = []" by (simp add: handler_defs)
  from conversation_save_failure_aborts_send [OF a b, of 1 10 "''hi''" None 7] a b c
  show ?thesis by (simp add: default_type_def)
qed

text \<open>
  With both participants online, a failing conversation save leaves the error event as the
  only output: no \<open>new-message\<close> and no \<open>message-status-update\<close> is published.
\<close>

theorem conversation_save_failure_counterexample:
  "outputs (run (init four_users [private_12]) [Connection 1 10, Connection 2 20])
      [SendMessage 1 10 0 ''hi'' None None 7 ConversationSaveFails]
   = [Emit (ToSocket 10) (ErrorEvent ''Failed to send message'')]"
  by (simp add: handler_defs)

text \<open>
  Claim C7. The status of a stored message never returns to \<open>sent\<close>, and along every
  sequence of events in which no delivered write of a \<open>send-message\<close> handler lands on
  the message after a read has set it to \<open>read\<close>, it only moves forward in the order
  sent, delivered, read. Handlers that run to completion one after the other form such
  a sequence.
\<close>

theorem status_regresses_only_by_delivered_write_after_read:
  assumes "i < length (Message_db s)"
  shows "i < length (Message_db (run s evs)) \<and>
         min (status_rank (m_status (Message_db s ! i))) 1
           \<le> status_rank (m_status (Message_db (run s evs) ! i)) \<and>
         (never_overwrites_read s evs i \<longrightarrow>
            status_rank (m_status (Message_db s ! i))
              \<le> status_rank (m_status (Message_db (run s evs) ! i)))"
  using assms
proof (induction evs arbitrary: s)
  case Nil
  then show ?case by simp
next
  case (Cons e evs)
  let ?s1 = "fst (step s e)"
  have len: "i < length (Message_db ?s1)"
    by (rule step_length [OF Cons.prems])
  note st = step_status [OF Cons.prems, of e]
  note ih = Cons.IH [OF len]
  have a: "i < length (Message_db (run s (e # evs)))"
    using ih by simp
  have b: "min (status_rank (m_status (Message_db s ! i))) 1
             \<le> status_rank (m_status (Message_db (run s (e # evs)) ! i))"
    using st ih by (simp add: min_def split: if_splits)
  have c: "status_rank (m_status (Message_db s ! i))
             \<le> status_rank (m_status (Message_db (run s (e # evs)) ! i))"
    if "never_overwrites_read s (e # evs) i"
    using that st ih by simp
  from a b c show ?case by blast
qed

theorem status_regresses_witness:
  "0 < length (Message_db (run (init four_users [group_123]) send_created)) \<and>
   never_overwrites_read (run (init four_users [group_123]) send_created)
     (rest_of_send @ [MessagesRead 2 20 0 13 NoFault]) 0 \<and>
   m_status (Message_db (run (init four_users [group_123]) send_created) ! 0) = Sent \<and>
   status_rank (m_status (Message_db (run (init four_users [group_123]) send_created) ! 0))
     \<le> status_rank (m_status (Message_db (run (run (init four_users [group_123]) send_created)
                         (rest_of_send @ [MessagesRead 2 20 0 13 NoFault])) ! 0))"
proof -
  let ?s = "run (init four_users [group_123]) send_created"
  let ?evs = "rest_of_send @ [MessagesRead 2 20 0 13 NoFault]"
  have a: "0 < length (Message_db ?s)" by (simp add: handler_defs)
  have b: "never_overwrites_read ?s ?evs 0" by (simp add: handler_defs)
  have c: "m_status (Message_db ?s ! 0) = Sent" by (simp add: handler_defs)
  from status_regresses_only_by_delivered_write_after_read [OF a, of ?evs] a b c
  show ?thesis by blast
qed

text \<open>
  The handler writes \<open>message.status = 'delivered'\<close> from the copy it created three awaits
  earlier and does not look at the stored status. Here the \<open>send-message\<close> of user 1 is
  suspended after \<open>Message.create\<close>, user 2 marks the conversation read, and the handler
  resumes: the stored status goes from \<open>read\<close> back to \<open>delivered\<close>.
\<close>

theorem read_overwritten_by_delivered_counterexample:
  "map m_status (Message_db (run (init four_users [group_123]) read_while_suspended)) = [Read] \<and>
   map m_status (Message_db (run (init four_users [group_123]) (read_while_suspended @ rest_of_send)))
     = [Delivered]"
  by (simp add: handler_defs)

text \<open>
  Claim C10. Along every sequence of events in which no delivered write lands on a
  message after a read (every sequence of bulk reads alone is one), the \<open>readBy\<close> list of
  the message grows by at most one entry: a message that is already \<open>read\<close> gets none,
  and one that is not gets exactly the first reader whose bulk read names its
  conversation and who is not its sender. That update also sets the status \<open>read\<close>, so
  the message is \<open>read\<close> afterwards exactly when it was before or a reader was
  recorded, and the later bulk updates skip it.
\<close>

theorem readBy_records_first_reader_only:
  assumes "i < length (Message_db s)" and "never_overwrites_read s evs i"
  shows "m_readBy (Message_db (run s evs) ! i) =
           m_readBy (Message_db s ! i) @
           (if m_status (Message_db s ! i) = Read then []
            else take 1 (List.map_filter (\<lambda>e. recorded_reader e (Message_db s ! i)) evs)) \<and>
         (m_status (Message_db (run s evs) ! i) = Read) =
           (m_status (Message_db s ! i) = Read \<or>
            List.map_filter (\<lambda>e. recorded_reader e (Message_db s ! i)) evs \<noteq> [])"
  using assms
proof (induction evs arbitrary: s)
  case Nil
  then show ?case by (simp add: List.map_filter_simps)
next
  case (Cons e evs)
  let ?s1 = "fst (step s e)"
  let ?m = "Message_db s ! i"
  let ?m1 = "Message_db ?s1 ! i"
  let ?after = "Message_db (run s (e # evs)) ! i"
  from Cons.prems have no: "\<not> overwrites_read s e i" and rest: "never_overwrites_read ?s1 evs i"
    by simp_all
  have len: "i < length (Message_db ?s1)"
    by (rule step_length [OF Cons.prems(1)])
  note st = step_readBy [OF Cons.prems(1) no]
  from st have "m_conversation ?m1 = m_conversation ?m" and "m_sender ?m1 = m_sender ?m"
    by simp_all
  then have same: "(\<lambda>e'. recorded_reader e' ?m1) = (\<lambda>e'. recorded_reader e' ?m)"
    by (intro ext recorded_reader_cong)
  have ih: "m_readBy ?after =
              m_readBy ?m1 @
              (if m_status ?m1 = Read then []
               else take 1 (List.map_filter (\<lambda>e'. recorded_reader e' ?m) evs))"
    and ih_status: "(m_status ?after = Read) =
              (m_status ?m1 = Read \<or> List.map_filter (\<lambda>e'. recorded_reader e' ?m) evs \<noteq> [])"
    using Cons.IH [OF len rest] same by simp_all
  show ?case
  proof (cases "m_status ?m = Read")
    case True
    with st have "m_status ?m1 = Read" and "m_readBy ?m1 = m_readBy ?m"
      by simp_all
    with ih ih_status True show ?thesis by simp
  next
    case False
    show ?thesis
    proof (cases "recorded_reader e ?m")
      case None
      with False st have "m_status ?m1 \<noteq> Read" and "m_readBy ?m1 = m_readBy ?m"
        by simp_all
      with ih ih_status False None show ?thesis
        by (simp add: List.map_filter_simps)
    next
      case (Some r)
      with False st have "m_status ?m1 = Read" and "m_readBy ?m1 = m_readBy ?m @ [r]"
        by simp_all
      with ih ih_status False Some show ?thesis
        by (simp add: List.map_filter_simps)
    qed
  qed
qed

theorem readBy_records_first_reader_only_witness:
  "0 < length (Message_db (run (init four_users [group_123]) send_created)) \<and>
   never_overwrites_read (run (init four_users [group_123]) send_created)
     (rest_of_send @ [MessagesRead 1 10 0 13 NoFault, MessagesRead 2 20 0 14 NoFault,
                      RestMarkAsRead 3 0 15 NoFault]) 0 \<and>
   m_readBy (Message_db (run (run (init four_users [group_123]) send_created)
     (rest_of_send @ [MessagesRead 1 10 0 13 NoFault, MessagesRead 2 20 0 14 NoFault,
                      RestMarkAsRead 3 0 15 NoFault])) ! 0) = [(2, 14)]"
proof -
  let ?s = "run (init four_users [group_123]) send_created"
  let ?evs = "rest_of_send @ [MessagesRead 1 10 0 13 NoFault, MessagesRead 2 20 0 14 NoFault,
                      RestMarkAsRead 3 0 15 NoFault]"
  have a: "0 < length (Message_db ?s)" by (simp add: handler_defs)
  have b: "never_overwrites_read ?s ?evs 0" by (simp add: handler_defs)
  have "m_readBy (Message_db (run ?s ?evs) ! 0) =
          m_readBy (Message_db ?s ! 0) @
          (if m_status (Message_db ?s ! 0) = Read then []
           else take 1 (List.map_filter (\<lambda>e. recorded_reader e (Message_db ?s ! 0)) ?evs))"
    using readBy_records_first_reader_only [OF a b] by (rule conjunct1)
  also have "\<dots> = [(2, 14)]"
    by (simp add: handler_defs List.map_filter_simps)
  finally show ?thesis using a b by blast
qed

text \<open>
  When the delivered write does land after the read of user 2, the message is no longer
  \<open>read\<close>, and the bulk read of user 3 records a second reader.
\<close>

theorem two_readers_recorded_counterexample:
  "map m_readBy (Message_db (run (init four_users [group_123])
      (read_while_suspended @ rest_of_send @ [MessagesRead 3 30 0 13 NoFault])))
   = [[(2, 9), (3, 13)]]"
  by (simp add: handler_defs)

end
